theory Spec2Isabelle
  imports Main "HOL-Library.Word"
begin

unbundle bit_operations_syntax

section \<open>Interface and address enumeration over netlink (interface\_android\_stub.go)\<close>

text \<open>
  A shallow embedding of package \<open>anet\<close>'s Android implementation. Conventions:
  \<^item> Go's \<open>int\<close> and \<open>uint\<close> are taken at 64 bits (arm64, x86-64), so \<open>int(u)\<close> of a
    \<open>uint32\<close> is \<open>uint u\<close> and never wraps; they are modelled by \<open>int\<close> and \<open>nat\<close>.
  \<^item> A Go function returning \<open>(v, err)\<close> returns an \<open>outcome\<close>: \<open>Ok v\<close>, \<open>Err err\<close>, or
    \<open>Fault f\<close> when the call does not return at all (a run-time panic) or reads memory
    outside the slice it was given through an \<open>unsafe.Pointer\<close>.
  \<^item> The kernel and the Go standard library are a parameter, the record \<open>kernel\<close>: what
    each request answers. Every request a function issues is written, in order, to the
    list of events it returns beside its result.
\<close>

subsection \<open>Constants of package syscall and net (linux)\<close>

type_synonym byte = "8 word"
type_synonym uint16 = "16 word"
type_synonym uint32 = "32 word"

definition android11ApiLevel :: int where "android11ApiLevel = 30"

definition NLMSG_DONE :: uint16 where "NLMSG_DONE = 3"
definition RTM_NEWADDR :: uint16 where "RTM_NEWADDR = 20"
definition IFA_ADDRESS :: uint16 where "IFA_ADDRESS = 1"
definition IFA_LOCAL :: uint16 where "IFA_LOCAL = 2"
definition IFA_LABEL :: uint16 where "IFA_LABEL = 3"
definition AF_INET :: byte where "AF_INET = 2"
definition AF_INET6 :: byte where "AF_INET6 = 10"
definition IFNAMSIZ :: nat where "IFNAMSIZ = 16"
definition SizeofIfAddrmsg :: nat where "SizeofIfAddrmsg = 8"
definition IPv4len :: int where "IPv4len = 4"
definition IPv6len :: int where "IPv6len = 16"

definition IFF_UP :: uint32 where "IFF_UP = 0x1"
definition IFF_BROADCAST :: uint32 where "IFF_BROADCAST = 0x2"
definition IFF_LOOPBACK :: uint32 where "IFF_LOOPBACK = 0x8"
definition IFF_POINTOPOINT :: uint32 where "IFF_POINTOPOINT = 0x10"
definition IFF_RUNNING :: uint32 where "IFF_RUNNING = 0x40"
definition IFF_MULTICAST :: uint32 where "IFF_MULTICAST = 0x1000"

type_synonym net_Flags = "64 word"

definition FlagUp :: net_Flags where "FlagUp = 1"
definition FlagBroadcast :: net_Flags where "FlagBroadcast = 2"
definition FlagLoopback :: net_Flags where "FlagLoopback = 4"
definition FlagPointToPoint :: net_Flags where "FlagPointToPoint = 8"
definition FlagMulticast :: net_Flags where "FlagMulticast = 16"
definition FlagRunning :: net_Flags where "FlagRunning = 32"

subsection \<open>Errors, faults and outcomes\<close>

datatype error =
    errInvalidInterface
  | errInvalidInterfaceIndex
  | errInvalidInterfaceName
  | errNoSuchInterface
  | errNoSuchMulticastInterface
  | Errno nat                      \<comment> \<open>\<open>syscall.Errno\<close>\<close>
  | SyscallError string error      \<comment> \<open>\<open>os.NewSyscallError(name, err)\<close>\<close>
  | OpError string string error    \<comment> \<open>\<open>&net.OpError{Op, Net, Err}\<close>, Source and Addr nil\<close>
  | ExternalError string           \<comment> \<open>an error of the conventional \<open>net\<close> API\<close>

definition EINVAL :: error where "EINVAL = Errno 22"

text \<open>Every entry point wraps its errors as \<open>&net.OpError{Op: "route", Net: "ip+net", Err: err}\<close>.\<close>

definition routeError :: "error \<Rightarrow> error" where
  "routeError err = OpError ''route'' ''ip+net'' err"

datatype fault =
    PanicIndexOutOfRange           \<comment> \<open>\<open>s[i]\<close> with \<open>i \<ge> len(s)\<close>\<close>
  | PanicSliceBoundsOutOfRange     \<comment> \<open>\<open>s[i:]\<close> with \<open>i > len(s)\<close>\<close>
  | PanicNilDereference            \<comment> \<open>a field of a nil pointer\<close>
  | UnsafeReadPastEnd              \<comment> \<open>a field read through \<open>unsafe.Pointer\<close> beyond the slice\<close>

datatype 'a outcome = Fault fault | Err error | Ok 'a

subsection \<open>Data: netlink messages, interfaces, addresses\<close>

record NlMsghdr =
  nlh_Len :: uint32
  nlh_Type :: uint16
  nlh_Flags :: uint16
  nlh_Seq :: uint32
  nlh_Pid :: uint32

record NetlinkMessage =
  Header :: NlMsghdr
  Data :: "byte list"

record IfAddrmsg =
  ifa_Family :: byte
  ifa_Prefixlen :: byte
  ifa_Flags :: byte
  ifa_Scope :: byte
  ifa_Index :: uint32

record RtAttr =
  rta_Len :: uint16
  rta_Type :: uint16

record NetlinkRouteAttr =
  Attr :: RtAttr
  Value :: "byte list"

record Interface =
  Index :: int
  MTU :: int
  Name :: string
  HardwareAddr :: "byte list"
  Flags :: net_Flags

record IPNet =
  IP :: "byte list"
  Mask :: "byte list"

text \<open>
  \<open>(*syscall.IfAddrmsg)(unsafe.Pointer(&m.Data[0]))\<close> lays the struct over the payload:
  Family, Prefixlen, Flags, Scope at offsets 0 to 3 and Index, a \<open>uint32\<close> in the byte order
  of the machine (little-endian on every Android ABI), at offsets 4 to 7. The struct read
  off a payload of at least \<open>SizeofIfAddrmsg\<close> bytes:
\<close>

definition le32 :: "byte \<Rightarrow> byte \<Rightarrow> byte \<Rightarrow> byte \<Rightarrow> uint32" where
  "le32 b0 b1 b2 b3 =
     ucast b0 OR push_bit 8 (ucast b1) OR push_bit 16 (ucast b2) OR push_bit 24 (ucast b3)"

definition IfAddrmsg_at :: "byte list \<Rightarrow> IfAddrmsg" where
  "IfAddrmsg_at d =
     \<lparr>ifa_Family = d ! 0, ifa_Prefixlen = d ! 1, ifa_Flags = d ! 2, ifa_Scope = d ! 3,
      ifa_Index = le32 (d ! 4) (d ! 5) (d ! 6) (d ! 7)\<rparr>"

subsection \<open>The kernel and the standard library, as a parameter\<close>

datatype event =
    EvDeviceApiLevel               \<comment> \<open>\<open>androidDeviceApiLevel()\<close>\<close>
  | EvNetlinkRIB                   \<comment> \<open>\<open>NetlinkRIB(RTM_GETADDR, AF_UNSPEC)\<close>\<close>
  | EvSocket                       \<comment> \<open>\<open>syscall.Socket(AF_INET, SOCK_DGRAM|SOCK_CLOEXEC, 0)\<close>\<close>
  | EvClose int                    \<comment> \<open>\<open>syscall.Close(fd)\<close>\<close>
  | EvIoctlName uint32             \<comment> \<open>\<open>ioctl(fd, SIOCGIFNAME, ...)\<close>\<close>
  | EvIoctlMTU string              \<comment> \<open>\<open>ioctl(fd, SIOCGIFMTU, ...)\<close>\<close>
  | EvIoctlFlags string            \<comment> \<open>\<open>ioctl(fd, SIOCGIFFLAGS, ...)\<close>\<close>
  | EvNetInterfaces                \<comment> \<open>\<open>net.Interfaces()\<close>\<close>
  | EvNetInterfaceAddrs            \<comment> \<open>\<open>net.InterfaceAddrs()\<close>\<close>
  | EvNetInterfaceByIndex int      \<comment> \<open>\<open>net.InterfaceByIndex(index)\<close>\<close>
  | EvIfiAddrs int                 \<comment> \<open>\<open>ifi.Addrs()\<close>, by the interface's index\<close>

text \<open>
  \<open>androidDeviceApiLevel\<close> and \<open>NetlinkRIB\<close> are functions of this package defined in
  other files; \<open>ParseNetlinkMessage\<close>, \<open>ParseNetlinkRouteAttr\<close>, \<open>Socket\<close>, the three
  \<open>ioctl\<close> requests and the conventional \<open>net\<close> API belong to the standard library and
  the kernel. An \<open>ioctl\<close> answers with the bytes it left in the request buffer:
  \<open>ifr[:IFNAMSIZ]\<close> for SIOCGIFNAME, the 32 bits at \<open>ifr[IFNAMSIZ]\<close> for the other two.
\<close>

record kernel =
  androidDeviceApiLevel :: int
  NetlinkRIB :: "error + byte list"
  ParseNetlinkMessage :: "byte list \<Rightarrow> error + NetlinkMessage list"
  ParseNetlinkRouteAttr :: "NetlinkMessage \<Rightarrow> error + NetlinkRouteAttr list"
  Socket :: "error + int"
  ioctl_SIOCGIFNAME :: "uint32 \<Rightarrow> error + string"
  ioctl_SIOCGIFMTU :: "string \<Rightarrow> error + uint32"
  ioctl_SIOCGIFFLAGS :: "string \<Rightarrow> error + uint32"
  net_Interfaces :: "error + Interface list"
  net_InterfaceAddrs :: "error + IPNet list"
  net_InterfaceByIndex :: "int \<Rightarrow> error + Interface"
  ifi_Addrs :: "Interface \<Rightarrow> error + IPNet list"

text \<open>The package's one mutable global.\<close>

record globals =
  customAndroidApiLevel :: int

definition initial_globals :: globals where
  "initial_globals = \<lparr>customAndroidApiLevel = - 1\<rparr>"

definition of_sum :: "error + 'a \<Rightarrow> 'a outcome" where
  "of_sum r = (case r of Inl e \<Rightarrow> Err e | Inr v \<Rightarrow> Ok v)"

subsection \<open>The compatibility gate\<close>

definition SetAndroidVersion :: "nat \<Rightarrow> globals \<Rightarrow> globals" where
  "SetAndroidVersion version g =
     (if version = 0 then g\<lparr>customAndroidApiLevel := - 1\<rparr>
      else if version \<ge> 11 then g\<lparr>customAndroidApiLevel := android11ApiLevel\<rparr>
      else g\<lparr>customAndroidApiLevel := 0\<rparr>)"

definition androidApiLevel :: "kernel \<Rightarrow> globals \<Rightarrow> int \<times> event list" where
  "androidApiLevel k g =
     (if customAndroidApiLevel g \<noteq> - 1 then (customAndroidApiLevel g, [])
      else (androidDeviceApiLevel k, [EvDeviceApiLevel]))"

subsection \<open>Per-interface property queries\<close>

text \<open>\<open>bytes.Trim(b, "\x00")\<close>: the NUL bytes at both ends are dropped.\<close>

definition is_NUL :: "char \<Rightarrow> bool" where
  "is_NUL c = (c = CHR 0x00)"

definition Trim_NUL :: "string \<Rightarrow> string" where
  "Trim_NUL s = rev (dropWhile is_NUL (rev (dropWhile is_NUL s)))"

definition indexToName :: "kernel \<Rightarrow> uint32 \<Rightarrow> (error + string) \<times> event list" where
  "indexToName k index =
     (case Socket k of
        Inl err \<Rightarrow> (Inl err, [EvSocket])
      | Inr fd \<Rightarrow>
          (case ioctl_SIOCGIFNAME k index of
             Inl err \<Rightarrow> (Inl err, [EvSocket, EvIoctlName index, EvClose fd])
           | Inr ifr \<Rightarrow>
               (Inr (Trim_NUL (take IFNAMSIZ ifr)), [EvSocket, EvIoctlName index, EvClose fd])))"

definition nameToMTU :: "kernel \<Rightarrow> string \<Rightarrow> (error + int) \<times> event list" where
  "nameToMTU k name =
     (if length name \<ge> IFNAMSIZ then (Inl EINVAL, [])
      else
        (case Socket k of
           Inl err \<Rightarrow> (Inl err, [EvSocket])
         | Inr fd \<Rightarrow>
             (case ioctl_SIOCGIFMTU k name of
                Inl err \<Rightarrow> (Inl err, [EvSocket, EvIoctlMTU name, EvClose fd])
              | Inr v \<Rightarrow> (Inr (sint v), [EvSocket, EvIoctlMTU name, EvClose fd]))))"

definition linkFlags :: "uint32 \<Rightarrow> net_Flags" where
  "linkFlags rawFlags =
     (let f = 0;
          f = (if rawFlags AND IFF_UP \<noteq> 0 then f OR FlagUp else f);
          f = (if rawFlags AND IFF_RUNNING \<noteq> 0 then f OR FlagRunning else f);
          f = (if rawFlags AND IFF_BROADCAST \<noteq> 0 then f OR FlagBroadcast else f);
          f = (if rawFlags AND IFF_LOOPBACK \<noteq> 0 then f OR FlagLoopback else f);
          f = (if rawFlags AND IFF_POINTOPOINT \<noteq> 0 then f OR FlagPointToPoint else f);
          f = (if rawFlags AND IFF_MULTICAST \<noteq> 0 then f OR FlagMulticast else f)
      in f)"

definition nameToFlags :: "kernel \<Rightarrow> string \<Rightarrow> (error + net_Flags) \<times> event list" where
  "nameToFlags k name =
     (if length name \<ge> IFNAMSIZ then (Inl EINVAL, [])
      else
        (case Socket k of
           Inl err \<Rightarrow> (Inl err, [EvSocket])
         | Inr fd \<Rightarrow>
             (case ioctl_SIOCGIFFLAGS k name of
                Inl err \<Rightarrow> (Inl err, [EvSocket, EvIoctlFlags name, EvClose fd])
              | Inr v \<Rightarrow> (Inr (linkFlags v), [EvSocket, EvIoctlFlags name, EvClose fd]))))"

text \<open>
  \<open>newLink\<close> returns nil, and no error, as soon as one of the three queries fails.
\<close>

definition newLink :: "kernel \<Rightarrow> IfAddrmsg \<Rightarrow> Interface option \<times> event list" where
  "newLink k ifam =
     (case indexToName k (ifa_Index ifam) of
        (Inl err, t1) \<Rightarrow> (None, t1)
      | (Inr name, t1) \<Rightarrow>
          (case nameToMTU k name of
             (Inl err, t2) \<Rightarrow> (None, t1 @ t2)
           | (Inr mtu, t2) \<Rightarrow>
               (case nameToFlags k name of
                  (Inl err, t3) \<Rightarrow> (None, t1 @ t2 @ t3)
                | (Inr flags, t3) \<Rightarrow>
                    (Some \<lparr>Index = uint (ifa_Index ifam), MTU = mtu, Name = name,
                           HardwareAddr = [], Flags = flags\<rparr>,
                     t1 @ t2 @ t3))))"

subsection \<open>The interface table\<close>

text \<open>
  The loop of \<open>interfaceTable\<close> over the decoded messages, with the set \<open>im\<close> of the
  indices seen and the table \<open>ift\<close> built so far. \<open>&m.Data[0]\<close> panics on an empty
  payload; \<open>ifam.Index\<close> is then read at offsets 4 to 7 of the payload with no check of
  its length.
\<close>

fun interfaceTable_loop ::
  "kernel \<Rightarrow> int \<Rightarrow> NetlinkMessage list \<Rightarrow> uint32 set \<Rightarrow> Interface list
     \<Rightarrow> Interface list outcome \<times> event list" where
  "interfaceTable_loop k ifindex [] im ift = (Ok ift, [])"
| "interfaceTable_loop k ifindex (m # ms) im ift =
     (if nlh_Type (Header m) = NLMSG_DONE then (Ok ift, [])
      else if nlh_Type (Header m) = RTM_NEWADDR then
        (if Data m = [] then (Fault PanicIndexOutOfRange, [])
         else if length (Data m) < SizeofIfAddrmsg then (Fault UnsafeReadPastEnd, [])
         else
           (let ifam = IfAddrmsg_at (Data m) in
            if ifa_Index ifam \<in> im then interfaceTable_loop k ifindex ms im ift
            else if ifindex = 0 \<or> ifindex = uint (ifa_Index ifam) then
              (case newLink k ifam of
                 (ifi, t) \<Rightarrow>
                   (let ift' = (case ifi of None \<Rightarrow> ift | Some i \<Rightarrow> ift @ [i]) in
                    if ifindex = uint (ifa_Index ifam) then (Ok ift', t)
                    else
                      (case interfaceTable_loop k ifindex ms (insert (ifa_Index ifam) im) ift' of
                         (r, t') \<Rightarrow> (r, t @ t'))))
            else interfaceTable_loop k ifindex ms (insert (ifa_Index ifam) im) ift))
      else interfaceTable_loop k ifindex ms im ift)"

definition interfaceTable :: "kernel \<Rightarrow> int \<Rightarrow> Interface list outcome \<times> event list" where
  "interfaceTable k ifindex =
     (case NetlinkRIB k of
        Inl err \<Rightarrow> (Err (SyscallError ''netlinkrib'' err), [EvNetlinkRIB])
      | Inr tab \<Rightarrow>
          (case ParseNetlinkMessage k tab of
             Inl err \<Rightarrow> (Err (SyscallError ''parsenetlinkmessage'' err), [EvNetlinkRIB])
           | Inr msgs \<Rightarrow>
               (case interfaceTable_loop k ifindex msgs {} [] of
                  (r, t) \<Rightarrow> (r, EvNetlinkRIB # t))))"

fun interfaceByIndex :: "Interface list \<Rightarrow> int \<Rightarrow> Interface outcome" where
  "interfaceByIndex [] index = Err errNoSuchInterface"
| "interfaceByIndex (ifi # ift) index =
     (if index = Index ifi then Ok ifi else interfaceByIndex ift index)"

subsection \<open>The address table\<close>

text \<open>
  \<open>net.IPv4(a, b, c, d)\<close> is the address in 16-byte form, the four bytes after the
  prefix \<open>v4InV6Prefix\<close>. \<open>net.CIDRMask(ones, bits)\<close> is nil unless \<open>bits\<close> is 32 or 128 and
  \<open>0 \<le> ones \<le> bits\<close>; byte \<open>i\<close> of the mask is \<open>0xff\<close> while at least 8 ones remain, then
  \<open>^byte(0xff >> n)\<close>.
\<close>

definition v4InV6Prefix :: "byte list" where
  "v4InV6Prefix = [0, 0, 0, 0, 0, 0, 0, 0, 0, 0, 0xff, 0xff]"

definition IPv4 :: "byte \<Rightarrow> byte \<Rightarrow> byte \<Rightarrow> byte \<Rightarrow> byte list" where
  "IPv4 a b c d = v4InV6Prefix @ [a, b, c, d]"

fun CIDRMask_bytes :: "nat \<Rightarrow> nat \<Rightarrow> byte list" where
  "CIDRMask_bytes 0 n = []"
| "CIDRMask_bytes (Suc l) n =
     (if n \<ge> 8 then 0xff # CIDRMask_bytes l (n - 8)
      else NOT (drop_bit n 0xff) # CIDRMask_bytes l 0)"

definition CIDRMask :: "int \<Rightarrow> int \<Rightarrow> byte list" where
  "CIDRMask ones bits =
     (if bits \<noteq> 8 * IPv4len \<and> bits \<noteq> 8 * IPv6len then []
      else if ones < 0 \<or> ones > bits then []
      else CIDRMask_bytes (nat (bits div 8)) (nat ones))"

text \<open>
  \<open>ifa.IP = make(net.IP, IPv6len); copy(ifa.IP, a.Value[:])\<close>: sixteen zero bytes, the
  first \<open>min(16, len(a.Value))\<close> of them overwritten.
\<close>

definition copy_IPv6 :: "byte list \<Rightarrow> byte list" where
  "copy_IPv6 v = take (nat IPv6len) v @ replicate (nat IPv6len - length v) 0"

fun has_IFA_LOCAL :: "NetlinkRouteAttr list \<Rightarrow> bool" where
  "has_IFA_LOCAL [] = False"
| "has_IFA_LOCAL (a # as) =
     (if rta_Type (Attr a) = IFA_LOCAL then True else has_IFA_LOCAL as)"

fun newAddr_loop :: "IfAddrmsg \<Rightarrow> bool \<Rightarrow> NetlinkRouteAttr list \<Rightarrow> IPNet option outcome" where
  "newAddr_loop ifam ipPointToPoint [] = Ok None"
| "newAddr_loop ifam ipPointToPoint (a # as) =
     (if ipPointToPoint \<and> rta_Type (Attr a) = IFA_ADDRESS then newAddr_loop ifam ipPointToPoint as
      else if ifa_Family ifam = AF_INET then
        (if length (Value a) < 4 then Fault PanicIndexOutOfRange
         else Ok (Some \<lparr>IP = IPv4 (Value a ! 0) (Value a ! 1) (Value a ! 2) (Value a ! 3),
                        Mask = CIDRMask (uint (ifa_Prefixlen ifam)) (8 * IPv4len)\<rparr>))
      else if ifa_Family ifam = AF_INET6 then
        Ok (Some \<lparr>IP = copy_IPv6 (Value a),
                   Mask = CIDRMask (uint (ifa_Prefixlen ifam)) (8 * IPv6len)\<rparr>)
      else newAddr_loop ifam ipPointToPoint as)"

definition newAddr :: "IfAddrmsg \<Rightarrow> NetlinkRouteAttr list \<Rightarrow> IPNet option outcome" where
  "newAddr ifam attrs = newAddr_loop ifam (has_IFA_LOCAL attrs) attrs"

text \<open>
  The loop of \<open>addrTable\<close>, with the addresses \<open>ifat\<close> found so far. \<open>ifi\<close> is a pointer:
  \<open>None\<close> is nil. In \<open>len(ift) != 0 || ifi.Index == int(ifam.Index)\<close> the right operand is
  evaluated only when \<open>ift\<close> is empty: \<open>ifi.Index\<close> first, which panics on nil, then
  \<open>ifam.Index\<close>, read at offsets 4 to 7 of the payload. \<open>ParseNetlinkRouteAttr\<close> starts
  with \<open>m.Data[SizeofIfAddrmsg:]\<close>, which panics on a shorter payload.
\<close>

fun addrTable_loop ::
  "kernel \<Rightarrow> Interface list \<Rightarrow> Interface option \<Rightarrow> NetlinkMessage list \<Rightarrow> IPNet list
     \<Rightarrow> IPNet list outcome" where
  "addrTable_loop k ift ifi [] ifat = Ok ifat"
| "addrTable_loop k ift ifi (m # ms) ifat =
     (if nlh_Type (Header m) = NLMSG_DONE then Ok ifat
      else if nlh_Type (Header m) = RTM_NEWADDR then
        (if Data m = [] then Fault PanicIndexOutOfRange
         else
           (case (if ift \<noteq> [] then Ok True
                  else (case ifi of
                          None \<Rightarrow> Fault PanicNilDereference
                        | Some i \<Rightarrow>
                            if length (Data m) < SizeofIfAddrmsg then Fault UnsafeReadPastEnd
                            else Ok (Index i = uint (ifa_Index (IfAddrmsg_at (Data m)))))) of
              Fault f \<Rightarrow> Fault f
            | Err err \<Rightarrow> Err err
            | Ok False \<Rightarrow> addrTable_loop k ift ifi ms ifat
            | Ok True \<Rightarrow>
                (if length (Data m) < SizeofIfAddrmsg then Fault PanicSliceBoundsOutOfRange
                 else
                   (case ParseNetlinkRouteAttr k m of
                      Inl err \<Rightarrow> Err (SyscallError ''parsenetlinkrouteattr'' err)
                    | Inr attrs \<Rightarrow>
                        (case newAddr (IfAddrmsg_at (Data m)) attrs of
                           Fault f \<Rightarrow> Fault f
                         | Err err \<Rightarrow> Err err
                         | Ok None \<Rightarrow> addrTable_loop k ift ifi ms ifat
                         | Ok (Some ifa) \<Rightarrow> addrTable_loop k ift ifi ms (ifat @ [ifa]))))))
      else addrTable_loop k ift ifi ms ifat)"

definition addrTable ::
  "kernel \<Rightarrow> Interface list \<Rightarrow> Interface option \<Rightarrow> NetlinkMessage list \<Rightarrow> IPNet list outcome" where
  "addrTable k ift ifi msgs = addrTable_loop k ift ifi msgs []"

definition interfaceAddrTable ::
  "kernel \<Rightarrow> Interface option \<Rightarrow> IPNet list outcome \<times> event list" where
  "interfaceAddrTable k ifi =
     (case NetlinkRIB k of
        Inl err \<Rightarrow> (Err (SyscallError ''netlinkrib'' err), [EvNetlinkRIB])
      | Inr tab \<Rightarrow>
          (case ParseNetlinkMessage k tab of
             Inl err \<Rightarrow> (Err (SyscallError ''parsenetlinkmessage'' err), [EvNetlinkRIB])
           | Inr msgs \<Rightarrow>
               (case ifi of
                  None \<Rightarrow>
                    (case interfaceTable k 0 of
                       (Fault f, t) \<Rightarrow> (Fault f, EvNetlinkRIB # t)
                     | (Err err, t) \<Rightarrow> (Err err, EvNetlinkRIB # t)
                     | (Ok ift, t) \<Rightarrow> (addrTable k ift ifi msgs, EvNetlinkRIB # t))
                | Some i \<Rightarrow> (addrTable k [] ifi msgs, [EvNetlinkRIB]))))"

subsection \<open>The header cast, with the memory behind the payload\<close>

text \<open>
  \<open>(*syscall.IfAddrmsg)(unsafe.Pointer(&m.Data[0]))\<close> is a pointer into the buffer that
  holds the payload, and a field read through it takes the bytes at its fixed offsets
  whether or not they lie within \<open>m.Data\<close>. To say what such a read returns, a message
  is paired with the memory that follows its payload: \<open>beyond n\<close> is the byte \<open>n\<close> places
  after the payload's end. Only \<open>ifam.Index\<close> can be read off a short payload: the
  family and prefix length are read in \<open>newAddr\<close>, after \<open>ParseNetlinkRouteAttr\<close> has
  sliced \<open>m.Data[SizeofIfAddrmsg:]\<close>.
\<close>

type_synonym memory = "nat \<Rightarrow> byte"

definition read_at :: "byte list \<Rightarrow> memory \<Rightarrow> nat \<Rightarrow> byte" where
  "read_at d beyond off = (if off < length d then d ! off else beyond (off - length d))"

definition IfAddrmsg_cast :: "byte list \<Rightarrow> memory \<Rightarrow> IfAddrmsg" where
  "IfAddrmsg_cast d beyond =
     \<lparr>ifa_Family = read_at d beyond 0, ifa_Prefixlen = read_at d beyond 1,
      ifa_Flags = read_at d beyond 2, ifa_Scope = read_at d beyond 3,
      ifa_Index = le32 (read_at d beyond 4) (read_at d beyond 5) (read_at d beyond 6)
                    (read_at d beyond 7)\<rparr>"

fun interfaceTable_loop_mem ::
  "kernel \<Rightarrow> int \<Rightarrow> (NetlinkMessage \<times> memory) list \<Rightarrow> uint32 set \<Rightarrow> Interface list
     \<Rightarrow> Interface list outcome \<times> event list" where
  "interfaceTable_loop_mem k ifindex [] im ift = (Ok ift, [])"
| "interfaceTable_loop_mem k ifindex ((m, beyond) # ms) im ift =
     (if nlh_Type (Header m) = NLMSG_DONE then (Ok ift, [])
      else if nlh_Type (Header m) = RTM_NEWADDR then
        (if Data m = [] then (Fault PanicIndexOutOfRange, [])
         else
           (let ifam = IfAddrmsg_cast (Data m) beyond in
            if ifa_Index ifam \<in> im then interfaceTable_loop_mem k ifindex ms im ift
            else if ifindex = 0 \<or> ifindex = uint (ifa_Index ifam) then
              (case newLink k ifam of
                 (ifi, t) \<Rightarrow>
                   (let ift' = (case ifi of None \<Rightarrow> ift | Some i \<Rightarrow> ift @ [i]) in
                    if ifindex = uint (ifa_Index ifam) then (Ok ift', t)
                    else
                      (case interfaceTable_loop_mem k ifindex ms (insert (ifa_Index ifam) im) ift' of
                         (r, t') \<Rightarrow> (r, t @ t'))))
            else interfaceTable_loop_mem k ifindex ms (insert (ifa_Index ifam) im) ift))
      else interfaceTable_loop_mem k ifindex ms im ift)"

fun addrTable_loop_mem ::
  "kernel \<Rightarrow> Interface list \<Rightarrow> Interface option \<Rightarrow> (NetlinkMessage \<times> memory) list
     \<Rightarrow> IPNet list \<Rightarrow> IPNet list outcome" where
  "addrTable_loop_mem k ift ifi [] ifat = Ok ifat"
| "addrTable_loop_mem k ift ifi ((m, beyond) # ms) ifat =
     (if nlh_Type (Header m) = NLMSG_DONE then Ok ifat
      else if nlh_Type (Header m) = RTM_NEWADDR then
        (if Data m = [] then Fault PanicIndexOutOfRange
         else
           (case (if ift \<noteq> [] then Ok True
                  else (case ifi of
                          None \<Rightarrow> Fault PanicNilDereference
                        | Some i \<Rightarrow>
                            Ok (Index i = uint (ifa_Index (IfAddrmsg_cast (Data m) beyond))))) of
              Fault f \<Rightarrow> Fault f
            | Err err \<Rightarrow> Err err
            | Ok False \<Rightarrow> addrTable_loop_mem k ift ifi ms ifat
            | Ok True \<Rightarrow>
                (if length (Data m) < SizeofIfAddrmsg then Fault PanicSliceBoundsOutOfRange
                 else
                   (case ParseNetlinkRouteAttr k m of
                      Inl err \<Rightarrow> Err (SyscallError ''parsenetlinkrouteattr'' err)
                    | Inr attrs \<Rightarrow>
                        (case newAddr (IfAddrmsg_cast (Data m) beyond) attrs of
                           Fault f \<Rightarrow> Fault f
                         | Err err \<Rightarrow> Err err
                         | Ok None \<Rightarrow> addrTable_loop_mem k ift ifi ms ifat
                         | Ok (Some ifa) \<Rightarrow> addrTable_loop_mem k ift ifi ms (ifat @ [ifa]))))))
      else addrTable_loop_mem k ift ifi ms ifat)"

subsection \<open>The entry points\<close>

text \<open>
  \<open>zoneCache.update\<close> and \<open>zoneCacheX.update\<close> are the no-op stubs of this file: they
  change nothing and ask the kernel nothing.
\<close>

definition wrap :: "'a outcome \<Rightarrow> 'a outcome" where
  "wrap r = (case r of Fault f \<Rightarrow> Fault f | Err err \<Rightarrow> Err (routeError err) | Ok v \<Rightarrow> Ok v)"

definition Interfaces :: "kernel \<Rightarrow> globals \<Rightarrow> Interface list outcome \<times> event list" where
  "Interfaces k g =
     (case androidApiLevel k g of
        (level, t0) \<Rightarrow>
          if level < android11ApiLevel then (of_sum (net_Interfaces k), t0 @ [EvNetInterfaces])
          else (case interfaceTable k 0 of (r, t) \<Rightarrow> (wrap r, t0 @ t)))"

definition InterfaceAddrs :: "kernel \<Rightarrow> globals \<Rightarrow> IPNet list outcome \<times> event list" where
  "InterfaceAddrs k g =
     (case androidApiLevel k g of
        (level, t0) \<Rightarrow>
          if level < android11ApiLevel
          then (of_sum (net_InterfaceAddrs k), t0 @ [EvNetInterfaceAddrs])
          else (case interfaceAddrTable k None of (r, t) \<Rightarrow> (wrap r, t0 @ t)))"

definition InterfaceByIndex :: "kernel \<Rightarrow> int \<Rightarrow> globals \<Rightarrow> Interface outcome \<times> event list" where
  "InterfaceByIndex k index g =
     (case androidApiLevel k g of
        (level, t0) \<Rightarrow>
          if level < android11ApiLevel
          then (of_sum (net_InterfaceByIndex k index), t0 @ [EvNetInterfaceByIndex index])
          else if index \<le> 0 then (Err (routeError errInvalidInterfaceIndex), t0)
          else
            (case interfaceTable k index of
               (Fault f, t) \<Rightarrow> (Fault f, t0 @ t)
             | (Err err, t) \<Rightarrow> (Err (routeError err), t0 @ t)
             | (Ok ift, t) \<Rightarrow> (wrap (interfaceByIndex ift index), t0 @ t)))"

fun find_by_name :: "string \<Rightarrow> Interface list \<Rightarrow> Interface outcome" where
  "find_by_name name [] = Err (routeError errNoSuchInterface)"
| "find_by_name name (ifi # ift) =
     (if name = Name ifi then Ok ifi else find_by_name name ift)"

text \<open>\<open>InterfaceByName\<close> reads neither the global nor the device's API level.\<close>

definition InterfaceByName :: "kernel \<Rightarrow> string \<Rightarrow> Interface outcome \<times> event list" where
  "InterfaceByName k name =
     (if name = [] then (Err (routeError errInvalidInterfaceName), [])
      else
        (case interfaceTable k 0 of
           (Fault f, t) \<Rightarrow> (Fault f, t)
         | (Err err, t) \<Rightarrow> (Err (routeError err), t)
         | (Ok ift, t) \<Rightarrow> (find_by_name name ift, t)))"

definition InterfaceAddrsByInterface ::
  "kernel \<Rightarrow> Interface option \<Rightarrow> globals \<Rightarrow> IPNet list outcome \<times> event list" where
  "InterfaceAddrsByInterface k ifi g =
     (case ifi of
        None \<Rightarrow> (Err (routeError errInvalidInterface), [])
      | Some i \<Rightarrow>
          (case androidApiLevel k g of
             (level, t0) \<Rightarrow>
               if level < android11ApiLevel then (of_sum (ifi_Addrs k i), t0 @ [EvIfiAddrs (Index i)])
               else (case interfaceAddrTable k ifi of (r, t) \<Rightarrow> (wrap r, t0 @ t))))"

subsection \<open>Vocabulary of the specification\<close>

text \<open>
  A decoded stream is the list of messages \<open>ParseNetlinkMessage\<close> returns. Its
  new-address records carry an interface index each; \<open>stream_indices\<close> lists them in
  stream order.
\<close>

definition is_NEWADDR :: "NetlinkMessage \<Rightarrow> bool" where
  "is_NEWADDR m = (nlh_Type (Header m) = RTM_NEWADDR)"

definition index_of :: "NetlinkMessage \<Rightarrow> uint32" where
  "index_of m = ifa_Index (IfAddrmsg_at (Data m))"

definition stream_indices :: "NetlinkMessage list \<Rightarrow> uint32 list" where
  "stream_indices msgs = map index_of (filter is_NEWADDR msgs)"

text \<open>
  The order in which values are first met in a list: each value once, at the place of
  its first occurrence.
\<close>

fun first_seen_order :: "'a list \<Rightarrow> 'a list" where
  "first_seen_order [] = []"
| "first_seen_order (x # xs) = x # removeAll x (first_seen_order xs)"

text \<open>No end-of-dump marker but, possibly, as the last message.\<close>

definition no_done_before_end :: "NetlinkMessage list \<Rightarrow> bool" where
  "no_done_before_end msgs = (\<forall>m\<in>set (butlast msgs). nlh_Type (Header m) \<noteq> NLMSG_DONE)"

text \<open>
  The records of the specification's data model: a new-address record has its
  fixed-layout header (family, prefix length, flags, scope, index) whole, and an interface
  index is a positive integer.
\<close>

definition complete_headers :: "NetlinkMessage list \<Rightarrow> bool" where
  "complete_headers msgs = (\<forall>m\<in>set msgs. is_NEWADDR m \<longrightarrow> SizeofIfAddrmsg \<le> length (Data m))"

definition decoded_stream :: "NetlinkMessage list \<Rightarrow> bool" where
  "decoded_stream msgs =
     (\<forall>m\<in>set msgs. is_NEWADDR m \<longrightarrow> SizeofIfAddrmsg \<le> length (Data m) \<and> index_of m \<noteq> 0)"

text \<open>
  The three sub-queries of an interface index: \<open>indexToName\<close> for the index, then
  \<open>nameToMTU\<close> and \<open>nameToFlags\<close> for the name it returned. They succeed when none
  of the three returns an error; the snapshot of the index is then the record of the
  three answers, and \<open>query_requests\<close> the kernel requests the three calls issue.
\<close>

definition queried_name :: "kernel \<Rightarrow> uint32 \<Rightarrow> string" where
  "queried_name k i = projr (fst (indexToName k i))"

definition queries_succeed :: "kernel \<Rightarrow> uint32 \<Rightarrow> bool" where
  "queries_succeed k i =
     (\<not> isl (fst (indexToName k i))
      \<and> \<not> isl (fst (nameToMTU k (queried_name k i)))
      \<and> \<not> isl (fst (nameToFlags k (queried_name k i))))"

definition snapshot :: "kernel \<Rightarrow> uint32 \<Rightarrow> Interface" where
  "snapshot k i =
     \<lparr>Index = uint i,
      MTU = projr (fst (nameToMTU k (queried_name k i))),
      Name = queried_name k i,
      HardwareAddr = [],
      Flags = projr (fst (nameToFlags k (queried_name k i)))\<rparr>"

definition query_requests :: "kernel \<Rightarrow> uint32 \<Rightarrow> event list" where
  "query_requests k i =
     snd (indexToName k i) @ snd (nameToMTU k (queried_name k i))
       @ snd (nameToFlags k (queried_name k i))"

definition resolved :: "kernel \<Rightarrow> uint32 \<Rightarrow> Interface option" where
  "resolved k i = (if queries_succeed k i then Some (snapshot k i) else None)"

definition all_queries_succeed :: "kernel \<Rightarrow> NetlinkMessage list \<Rightarrow> bool" where
  "all_queries_succeed k msgs = (\<forall>i\<in>set (stream_indices msgs). queries_succeed k i)"

text \<open>
  The same in the kernel's terms: the name is what SIOCGIFNAME left in the buffer, its
  NUL bytes trimmed; the MTU is the signed 32 bits SIOCGIFMTU left, the flags the
  translation of the 32 bits SIOCGIFFLAGS left.
\<close>

definition kernel_name :: "kernel \<Rightarrow> uint32 \<Rightarrow> string" where
  "kernel_name k i = Trim_NUL (take IFNAMSIZ (projr (ioctl_SIOCGIFNAME k i)))"

definition kernel_answers :: "kernel \<Rightarrow> uint32 \<Rightarrow> bool" where
  "kernel_answers k i =
     (\<not> isl (Socket k) \<and> \<not> isl (ioctl_SIOCGIFNAME k i)
      \<and> length (kernel_name k i) < IFNAMSIZ
      \<and> \<not> isl (ioctl_SIOCGIFMTU k (kernel_name k i))
      \<and> \<not> isl (ioctl_SIOCGIFFLAGS k (kernel_name k i)))"

definition kernel_record :: "kernel \<Rightarrow> uint32 \<Rightarrow> Interface" where
  "kernel_record k i =
     \<lparr>Index = uint i,
      MTU = sint (projr (ioctl_SIOCGIFMTU k (kernel_name k i))),
      Name = kernel_name k i,
      HardwareAddr = [],
      Flags = linkFlags (projr (ioctl_SIOCGIFFLAGS k (kernel_name k i)))\<rparr>"

definition kernel_requests :: "kernel \<Rightarrow> uint32 \<Rightarrow> event list" where
  "kernel_requests k i =
     [EvSocket, EvIoctlName i, EvClose (projr (Socket k)),
      EvSocket, EvIoctlMTU (kernel_name k i), EvClose (projr (Socket k)),
      EvSocket, EvIoctlFlags (kernel_name k i), EvClose (projr (Socket k))]"

text \<open>The first attribute of a list that is not of the address kind.\<close>

definition first_not_address :: "NetlinkRouteAttr list \<Rightarrow> NetlinkRouteAttr option" where
  "first_not_address attrs = find (\<lambda>a. rta_Type (Attr a) \<noteq> IFA_ADDRESS) attrs"

definition first_local :: "NetlinkRouteAttr list \<Rightarrow> NetlinkRouteAttr option" where
  "first_local attrs = find (\<lambda>a. rta_Type (Attr a) = IFA_LOCAL) attrs"

text \<open>
  The attribute \<open>newAddr\<close> builds from: the first one that its second loop does not
  skip.
\<close>

definition first_usable :: "NetlinkRouteAttr list \<Rightarrow> NetlinkRouteAttr option" where
  "first_usable attrs =
     find (\<lambda>a. \<not> (has_IFA_LOCAL attrs \<and> rta_Type (Attr a) = IFA_ADDRESS)) attrs"


subsection \<open>A sample kernel\<close>

text \<open>
  Two interfaces, \<open>lo\<close> (index 1) and \<open>wlan0\<close> (index 2), three addresses, and an
  end-of-dump marker; the device reports API level 30.
\<close>

definition ex_msg :: "uint16 \<Rightarrow> byte list \<Rightarrow> NetlinkMessage" where
  "ex_msg ty d =
     \<lparr>Header = \<lparr>nlh_Len = of_nat (16 + length d), nlh_Type = ty, nlh_Flags = 2,
                nlh_Seq = 1, nlh_Pid = 0\<rparr>,
      Data = d\<rparr>"

definition ex_attr :: "uint16 \<Rightarrow> byte list \<Rightarrow> NetlinkRouteAttr" where
  "ex_attr ty v = \<lparr>Attr = \<lparr>rta_Len = of_nat (4 + length v), rta_Type = ty\<rparr>, Value = v\<rparr>"

definition ex_stream :: "NetlinkMessage list" where
  "ex_stream =
     [ex_msg RTM_NEWADDR [2, 8, 0, 0, 1, 0, 0, 0],
      ex_msg RTM_NEWADDR [2, 24, 0, 0, 2, 0, 0, 0],
      ex_msg RTM_NEWADDR [10, 128, 0, 0, 1, 0, 0, 0],
      ex_msg NLMSG_DONE []]"

definition ex_attrs :: "NetlinkMessage \<Rightarrow> NetlinkRouteAttr list" where
  "ex_attrs m =
     (if Data m = [2, 8, 0, 0, 1, 0, 0, 0]
      then [ex_attr IFA_ADDRESS [127, 0, 0, 1], ex_attr IFA_LOCAL [127, 0, 0, 1]]
      else if Data m = [2, 24, 0, 0, 2, 0, 0, 0]
      then [ex_attr IFA_ADDRESS [192, 168, 1, 7], ex_attr IFA_LOCAL [192, 168, 1, 7]]
      else [ex_attr IFA_ADDRESS [0, 0, 0, 0, 0, 0, 0, 0, 0, 0, 0, 0, 0, 0, 0, 1]])"

definition ex_lo :: Interface where
  "ex_lo = \<lparr>Index = 1, MTU = 65536, Name = ''lo'', HardwareAddr = [], Flags = 37\<rparr>"

definition ex_wlan0 :: Interface where
  "ex_wlan0 = \<lparr>Index = 2, MTU = 1500, Name = ''wlan0'', HardwareAddr = [], Flags = 51\<rparr>"

definition ex_kernel :: kernel where
  "ex_kernel =
     \<lparr>androidDeviceApiLevel = 30,
      NetlinkRIB = Inr [],
      ParseNetlinkMessage = (\<lambda>tab. Inr ex_stream),
      ParseNetlinkRouteAttr = (\<lambda>m. Inr (ex_attrs m)),
      Socket = Inr 3,
      ioctl_SIOCGIFNAME =
        (\<lambda>i. if i = 1 then Inr (''lo'' @ replicate 14 (CHR 0x00))
             else if i = 2 then Inr (''wlan0'' @ replicate 11 (CHR 0x00))
             else Inl (Errno 19)),
      ioctl_SIOCGIFMTU = (\<lambda>n. if n = ''lo'' then Inr 65536 else Inr 1500),
      ioctl_SIOCGIFFLAGS = (\<lambda>n. if n = ''lo'' then Inr 0x49 else Inr 0x1043),
      net_Interfaces = Inr [ex_lo, ex_wlan0],
      net_InterfaceAddrs = Inr [],
      net_InterfaceByIndex =
        (\<lambda>i. if i = 1 then Inr ex_lo else if i = 2 then Inr ex_wlan0
             else Inl (ExternalError ''no such network interface'')),
      ifi_Addrs = (\<lambda>i. Inr [])\<rparr>"

text \<open>The same kernel on a device below the threshold, at API level 29.\<close>

definition ex_kernel_29 :: kernel where
  "ex_kernel_29 = ex_kernel\<lparr>androidDeviceApiLevel := 29\<rparr>"

text \<open>The same kernel when the name of no interface can be queried (ENODEV).\<close>

definition ex_kernel_noname :: kernel where
  "ex_kernel_noname = ex_kernel\<lparr>ioctl_SIOCGIFNAME := (\<lambda>i. Inl (Errno 19))\<rparr>"

text \<open>The same kernel when only the name of interface 2 cannot be queried.\<close>

definition ex_kernel_nowlan :: kernel where
  "ex_kernel_nowlan =
     ex_kernel\<lparr>ioctl_SIOCGIFNAME :=
       (\<lambda>i. if i = 1 then Inr (''lo'' @ replicate 14 (CHR 0x00)) else Inl (Errno 19))\<rparr>"

text \<open>
  The same kernel when the MTU of \<open>wlan0\<close> cannot be queried (EPERM), and when its flags
  cannot (ENXIO).
\<close>

definition ex_kernel_nomtu :: kernel where
  "ex_kernel_nomtu =
     ex_kernel\<lparr>ioctl_SIOCGIFMTU := (\<lambda>n. if n = ''lo'' then Inr 65536 else Inl (Errno 1))\<rparr>"

definition ex_kernel_noflags :: kernel where
  "ex_kernel_noflags =
     ex_kernel\<lparr>ioctl_SIOCGIFFLAGS := (\<lambda>n. if n = ''lo'' then Inr 0x49 else Inl (Errno 6))\<rparr>"

text \<open>Memory that holds \<open>b, 0, 0, 0, ...\<close> behind a payload.\<close>

definition ex_beyond :: "byte \<Rightarrow> memory" where
  "ex_beyond b = (\<lambda>n. if n = 0 then b else 0)"

text \<open>A stream with a well-formed record after the end-of-dump marker.\<close>

definition ex_stream_done :: "NetlinkMessage list" where
  "ex_stream_done =
     [ex_msg RTM_NEWADDR [2, 8, 0, 0, 1, 0, 0, 0],
      ex_msg NLMSG_DONE [],
      ex_msg RTM_NEWADDR [2, 24, 0, 0, 2, 0, 0, 0]]"

text \<open>
  An IPv4 record of prefix length 24 on interface 2, with two attribute lists: peer
  10.0.0.5 and local 10.0.0.6, and the same after a label attribute (\<open>eth0\<close>).
\<close>

definition ex_ifam :: IfAddrmsg where
  "ex_ifam =
     \<lparr>ifa_Family = AF_INET, ifa_Prefixlen = 24, ifa_Flags = 0, ifa_Scope = 0, ifa_Index = 2\<rparr>"

definition ex_p2p_attrs :: "NetlinkRouteAttr list" where
  "ex_p2p_attrs = [ex_attr IFA_ADDRESS [10, 0, 0, 5], ex_attr IFA_LOCAL [10, 0, 0, 6]]"

definition ex_label_attrs :: "NetlinkRouteAttr list" where
  "ex_label_attrs =
     [ex_attr IFA_LABEL [0x65, 0x74, 0x68, 0x30, 0],
      ex_attr IFA_ADDRESS [10, 0, 0, 5],
      ex_attr IFA_LOCAL [10, 0, 0, 6]]"

section \<open>Properties\<close>

subsection \<open>Unfolding the constants and the sample kernel\<close>

lemmas ex_defs = ex_kernel_def ex_stream_def ex_msg_def ex_attr_def ex_attrs_def ex_lo_def ex_wlan0_def
  ex_kernel_29_def ex_kernel_noname_def ex_kernel_nowlan_def ex_stream_done_def ex_ifam_def
  ex_p2p_attrs_def ex_label_attrs_def ex_kernel_nomtu_def ex_kernel_noflags_def
  ex_beyond_def
lemmas const_defs = NLMSG_DONE_def RTM_NEWADDR_def IFA_ADDRESS_def IFA_LOCAL_def IFA_LABEL_def
  AF_INET_def AF_INET6_def
  IFNAMSIZ_def SizeofIfAddrmsg_def IPv4len_def IPv6len_def android11ApiLevel_def EINVAL_def
lemmas flag_defs = IFF_UP_def IFF_BROADCAST_def IFF_LOOPBACK_def IFF_POINTOPOINT_def IFF_RUNNING_def IFF_MULTICAST_def
  FlagUp_def FlagBroadcast_def FlagLoopback_def FlagPointToPoint_def FlagMulticast_def FlagRunning_def
lemmas addr_defs = newAddr_def IPv4_def v4InV6Prefix_def CIDRMask_def copy_IPv6_def
lemmas entry_defs = Interfaces_def InterfaceAddrs_def InterfaceByIndex_def InterfaceByName_def
  InterfaceAddrsByInterface_def interfaceTable_def interfaceAddrTable_def addrTable_def
  androidApiLevel_def initial_globals_def wrap_def of_sum_def routeError_def
lemmas query_defs = newLink_def indexToName_def nameToMTU_def nameToFlags_def Trim_NUL_def is_NUL_def
  linkFlags_def IfAddrmsg_at_def le32_def

subsection \<open>Helper lemmas\<close>

lemma dropWhile_NUL_replicate [simp]:
  "dropWhile is_NUL (replicate n (CHR 0x00) @ s) = dropWhile is_NUL s"
  by (induction n) (simp_all add: is_NUL_def)

lemma set_first_seen_order [simp]: "set (first_seen_order xs) = set xs"
  by (induction xs) auto

lemma distinct_first_seen_order [simp]: "distinct (first_seen_order xs)"
  by (induction xs) (auto simp: distinct_removeAll)

lemma length_first_seen_order: "length (first_seen_order xs) = card (set xs)"
  using distinct_card [OF distinct_first_seen_order, of xs] by simp

lemma filter_removeAll_insert:
  "filter (\<lambda>i. i \<notin> insert x S) ys = filter (\<lambda>i. i \<notin> S) (removeAll x ys)"
  by (induction ys) auto

lemma filter_removeAll_member:
  "x \<in> S \<Longrightarrow> filter (\<lambda>i. i \<notin> S) (removeAll x ys) = filter (\<lambda>i. i \<notin> S) ys"
  by (induction ys) auto

lemma map_filter_all_Some:
  "\<forall>x\<in>set xs. f x \<noteq> None \<Longrightarrow> List.map_filter f xs = map (\<lambda>x. the (f x)) xs"
  by (induction xs) auto

lemma DONE_neq_NEWADDR: "NLMSG_DONE \<noteq> RTM_NEWADDR"
  by (simp add: NLMSG_DONE_def RTM_NEWADDR_def)

lemma newLink_cong: "ifa_Index a = ifa_Index b \<Longrightarrow> newLink k a = newLink k b"
  by (simp add: newLink_def split: prod.splits sum.splits)

lemma newLink_Index: "fst (newLink k ifam) = Some r \<Longrightarrow> Index r = uint (ifa_Index ifam)"
  by (auto simp: newLink_def split: prod.splits sum.splits)

lemma CIDRMask_bytes_numeral [simp]:
  "CIDRMask_bytes (numeral l) n =
     (if n \<ge> 8 then 0xff # CIDRMask_bytes (pred_numeral l) (n - 8)
      else NOT (drop_bit n 0xff) # CIDRMask_bytes (pred_numeral l) 0)"
  by (simp add: numeral_eq_Suc)

lemma CIDRMask_bytes_1 [simp]:
  "CIDRMask_bytes 1 n = (if n \<ge> 8 then [0xff] else [NOT (drop_bit n 0xff)])"
  by (simp add: One_nat_def [symmetric] del: One_nat_def) (simp add: One_nat_def)

lemma length_CIDRMask_bytes [simp]: "length (CIDRMask_bytes l n) = l"
  by (induction l arbitrary: n) auto

lemma length_CIDRMask:
  "length (CIDRMask ones bits) =
     (if (bits = 32 \<or> bits = 128) \<and> 0 \<le> ones \<and> ones \<le> bits then nat (bits div 8) else 0)"
  by (auto simp: CIDRMask_def IPv4len_def IPv6len_def)

lemma newAddr_loop_other_family:
  "ifa_Family ifam \<noteq> AF_INET \<Longrightarrow> ifa_Family ifam \<noteq> AF_INET6 \<Longrightarrow> newAddr_loop ifam p attrs = Ok None"
  by (induction attrs) auto

lemma newAddr_loop_first:
  assumes "find (\<lambda>a. \<not> (p \<and> rta_Type (Attr a) = IFA_ADDRESS)) attrs = Some a"
  shows "newAddr_loop ifam p attrs = newAddr_loop ifam False [a]"
  using assms
proof (induction attrs)
  case Nil
  then show ?case by simp
next
  case (Cons b bs)
  show ?case
  proof (cases "p \<and> rta_Type (Attr b) = IFA_ADDRESS")
    case True
    then show ?thesis using Cons by simp
  next
    case False
    then have "a = b" using Cons.prems by auto
    then show ?thesis using False newAddr_loop_other_family [of ifam p bs] by auto
  qed
qed

lemma length_copy_IPv6: "length (copy_IPv6 v) = 16"
  by (simp add: copy_IPv6_def IPv6len_def)

lemma copy_IPv6_id: "length v = 16 \<Longrightarrow> copy_IPv6 v = v"
  by (simp add: copy_IPv6_def IPv6len_def)

lemma take4: "4 \<le> length v \<Longrightarrow> take 4 v = [v ! 0, v ! 1, v ! 2, v ! 3]"
  by (cases v; cases "tl v"; cases "tl (tl v)"; cases "tl (tl (tl v))") auto

lemma has_IFA_LOCAL_iff: "has_IFA_LOCAL attrs \<longleftrightarrow> (\<exists>a\<in>set attrs. rta_Type (Attr a) = IFA_LOCAL)"
  by (induction attrs) auto

lemma LOCAL_neq_ADDRESS: "IFA_LOCAL \<noteq> IFA_ADDRESS"
  by (simp add: IFA_LOCAL_def IFA_ADDRESS_def)

lemma has_IFA_LOCAL_filter:
  "has_IFA_LOCAL (filter (\<lambda>a. rta_Type (Attr a) \<noteq> IFA_ADDRESS) attrs) = has_IFA_LOCAL attrs"
  using LOCAL_neq_ADDRESS by (induction attrs) auto

lemma newAddr_loop_skips:
  "newAddr_loop ifam True (filter (\<lambda>a. rta_Type (Attr a) \<noteq> IFA_ADDRESS) attrs) = newAddr_loop ifam True attrs"
  by (induction attrs) auto

lemma first_not_address_local:
  assumes "first_not_address attrs = Some a" and "rta_Type (Attr a) = IFA_LOCAL"
  shows "first_local attrs = Some a"
  using assms unfolding first_not_address_def first_local_def
proof (induction attrs)
  case Nil
  then show ?case by simp
next
  case (Cons b bs)
  then show ?case using LOCAL_neq_ADDRESS by (cases "rta_Type (Attr b) = IFA_ADDRESS") auto
qed

text \<open>The loop for target 0 on a stream with no end-of-dump marker.\<close>

lemma loop_all:
  assumes "\<forall>m\<in>set msgs. nlh_Type (Header m) \<noteq> NLMSG_DONE"
    and "\<forall>m\<in>set msgs. is_NEWADDR m \<longrightarrow> SizeofIfAddrmsg \<le> length (Data m) \<and> index_of m \<noteq> 0"
    and "\<forall>m\<in>set msgs. is_NEWADDR m \<longrightarrow> newLink k (IfAddrmsg_at (Data m)) = (R (index_of m), T (index_of m))"
  shows "interfaceTable_loop k 0 msgs im ift =
     (Ok (ift @ List.map_filter R (filter (\<lambda>i. i \<notin> im) (first_seen_order (stream_indices msgs)))),
      concat (map T (filter (\<lambda>i. i \<notin> im) (first_seen_order (stream_indices msgs)))))"
  using assms
proof (induction msgs arbitrary: im ift)
  case Nil
  then show ?case by (simp add: stream_indices_def)
next
  case (Cons m ms)
  have nd: "nlh_Type (Header m) \<noteq> NLMSG_DONE" using Cons.prems(1) by simp
  have IH: "\<And>im ift. interfaceTable_loop k 0 ms im ift =
     (Ok (ift @ List.map_filter R (filter (\<lambda>i. i \<notin> im) (first_seen_order (stream_indices ms)))),
      concat (map T (filter (\<lambda>i. i \<notin> im) (first_seen_order (stream_indices ms)))))"
    using Cons.IH Cons.prems by simp
  show ?case
  proof (cases "is_NEWADDR m")
    case False
    then show ?thesis using nd IH
      by (simp add: is_NEWADDR_def stream_indices_def)
  next
    case True
    then have len: "SizeofIfAddrmsg \<le> length (Data m)" and nz: "index_of m \<noteq> 0"
      and nl: "newLink k (IfAddrmsg_at (Data m)) = (R (index_of m), T (index_of m))"
      using Cons.prems by simp_all
    from len have ne: "Data m \<noteq> []" by (auto simp: SizeofIfAddrmsg_def)
    from nz have unz: "uint (index_of m) \<noteq> 0" by (simp add: uint_0_iff)
    have si: "stream_indices (m # ms) = index_of m # stream_indices ms"
      using True by (simp add: stream_indices_def)
    show ?thesis
    proof (cases "index_of m \<in> im")
      case True
      then show ?thesis using nd \<open>is_NEWADDR m\<close> len ne IH si
        by (simp add: is_NEWADDR_def index_of_def [symmetric] filter_removeAll_member Let_def)
    next
      case False
      then show ?thesis using nd \<open>is_NEWADDR m\<close> len ne IH si nl unz
        by (cases "R (index_of m)")
           (simp_all add: is_NEWADDR_def index_of_def [symmetric] filter_removeAll_insert [symmetric]
              Let_def)
    qed
  qed
qed

lemma loop_done:
  "nlh_Type (Header d) = NLMSG_DONE \<Longrightarrow>
   interfaceTable_loop k ifindex (pre @ d # post) im ift = interfaceTable_loop k ifindex pre im ift"
  by (induction pre arbitrary: im ift) (auto simp: Let_def split: prod.splits option.splits)

lemma addr_loop_done:
  "nlh_Type (Header d) = NLMSG_DONE \<Longrightarrow>
   addrTable_loop k ift ifi (pre @ d # post) ifat = addrTable_loop k ift ifi pre ifat"
  by (induction pre arbitrary: ifat)
     (auto simp: Let_def split: prod.splits option.splits outcome.splits bool.splits sum.splits)

lemma stream_indices_snoc_done:
  "nlh_Type (Header d) = NLMSG_DONE \<Longrightarrow> stream_indices (b @ [d]) = stream_indices b"
  using DONE_neq_NEWADDR by (simp add: stream_indices_def is_NEWADDR_def)







lemma decoded_complete: "decoded_stream msgs \<Longrightarrow> complete_headers msgs"
  by (simp add: decoded_stream_def complete_headers_def)

text \<open>
  A name that leaves no room for the terminating NUL is refused before any system call.
\<close>

lemma long_name_refused:
  "IFNAMSIZ \<le> length name \<Longrightarrow>
   nameToMTU k name = (Inl EINVAL, []) \<and> nameToFlags k name = (Inl EINVAL, [])"
  by (simp add: nameToMTU_def nameToFlags_def)

text \<open>
  The gate: what \<open>SetAndroidVersion\<close> makes of its argument, and what the four entry
  points that consult \<open>androidApiLevel\<close> do below the threshold.
\<close>

lemma SetAndroidVersion_buckets:
  "SetAndroidVersion 0 g = initial_globals
   \<and> (11 \<le> version \<longrightarrow> androidApiLevel k (SetAndroidVersion version g) = (android11ApiLevel, []))
   \<and> (1 \<le> version \<and> version \<le> 10 \<longrightarrow> androidApiLevel k (SetAndroidVersion version g) = (0, []))"
  by (simp add: SetAndroidVersion_def androidApiLevel_def initial_globals_def android11ApiLevel_def)

lemma gated_entry_points_conventional:
  assumes "fst (androidApiLevel k g) < android11ApiLevel"
  shows "Interfaces k g = (of_sum (net_Interfaces k), snd (androidApiLevel k g) @ [EvNetInterfaces])"
    and "InterfaceAddrs k g = (of_sum (net_InterfaceAddrs k), snd (androidApiLevel k g) @ [EvNetInterfaceAddrs])"
    and "InterfaceByIndex k index g =
           (of_sum (net_InterfaceByIndex k index), snd (androidApiLevel k g) @ [EvNetInterfaceByIndex index])"
    and "InterfaceAddrsByInterface k (Some i) g =
           (of_sum (ifi_Addrs k i), snd (androidApiLevel k g) @ [EvIfiAddrs (Index i)])"
  using assms
  by (cases "androidApiLevel k g";
      simp add: Interfaces_def InterfaceAddrs_def InterfaceByIndex_def InterfaceAddrsByInterface_def)+

text \<open>\<open>InterfaceByName\<close> never asks for the device's API level.\<close>

lemma newLink_no_detection: "newLink k ifam = (r, t) \<Longrightarrow> EvDeviceApiLevel \<notin> set t"
  by (auto simp: newLink_def indexToName_def nameToMTU_def nameToFlags_def
           split: sum.splits prod.splits if_splits)

lemma loop_no_detection:
  "interfaceTable_loop k ifindex msgs im ift = (r, t) \<Longrightarrow> EvDeviceApiLevel \<notin> set t"
proof (induction msgs arbitrary: ifindex im ift r t)
  case Nil
  then show ?case by simp
next
  case (Cons m ms)
  from Cons.prems show ?case
    by (auto simp: Let_def split: prod.splits option.splits if_splits)
       (blast dest: Cons.IH newLink_no_detection)+
qed

lemma InterfaceByName_no_detection:
  "EvDeviceApiLevel \<notin> set (snd (InterfaceByName k name))"
  by (auto simp: InterfaceByName_def interfaceTable_def
           split: prod.splits sum.splits outcome.splits)
     (blast dest: loop_no_detection)+

text \<open>With no interface table and no interface, \<open>addrTable\<close> stops at the first record.\<close>

lemma addrTable_nil_interface:
  "is_NEWADDR m \<Longrightarrow> Data m \<noteq> [] \<Longrightarrow> addrTable k [] None (m # ms) = Fault PanicNilDereference"
  using DONE_neq_NEWADDR by (simp add: addrTable_def is_NEWADDR_def)

lemmas snapshot_defs = queries_succeed_def snapshot_def queried_name_def query_requests_def resolved_def
  kernel_name_def kernel_answers_def kernel_record_def kernel_requests_def all_queries_succeed_def

lemma newLink_resolved: "fst (newLink k ifam) = resolved k (ifa_Index ifam)"
  by (auto simp: newLink_def resolved_def queries_succeed_def snapshot_def queried_name_def
           split: prod.splits sum.splits)

lemma newLink_requests:
  "queries_succeed k (ifa_Index ifam) \<Longrightarrow> snd (newLink k ifam) = query_requests k (ifa_Index ifam)"
  by (auto simp: newLink_def queries_succeed_def query_requests_def queried_name_def
           split: prod.splits sum.splits)

lemma kernel_answers_iff: "kernel_answers k i \<longleftrightarrow> queries_succeed k i"
  by (auto simp: kernel_answers_def queries_succeed_def queried_name_def kernel_name_def
        indexToName_def nameToMTU_def nameToFlags_def split: sum.splits)

lemma kernel_record_eq:
  "queries_succeed k i \<Longrightarrow>
   snapshot k i = kernel_record k i \<and> query_requests k i = kernel_requests k i"
  by (auto simp: kernel_record_def kernel_requests_def queries_succeed_def snapshot_def
        query_requests_def queried_name_def kernel_name_def
        indexToName_def nameToMTU_def nameToFlags_def split: sum.splits if_splits)

lemma loop_all_end:
  assumes nd: "no_done_before_end msgs" and dec: "decoded_stream msgs"
    and links: "\<forall>m\<in>set msgs. is_NEWADDR m \<longrightarrow>
      newLink k (IfAddrmsg_at (Data m)) = (R (index_of m), T (index_of m))"
  shows "interfaceTable_loop k 0 msgs {} [] =
     (Ok (List.map_filter R (first_seen_order (stream_indices msgs))),
      concat (map T (first_seen_order (stream_indices msgs))))"
proof (cases "msgs = [] \<or> nlh_Type (Header (last msgs)) \<noteq> NLMSG_DONE")
  case True
  then have "\<forall>m\<in>set msgs. nlh_Type (Header m) \<noteq> NLMSG_DONE"
  proof
    assume "msgs = []" then show ?thesis by simp
  next
    assume l: "nlh_Type (Header (last msgs)) \<noteq> NLMSG_DONE"
    show ?thesis
    proof (cases "msgs = []")
      case False
      then have "set msgs = insert (last msgs) (set (butlast msgs))"
        by (metis append_butlast_last_id list.simps(15) rotate1.simps(2) set_rotate1)
      then show ?thesis using nd l by (simp add: no_done_before_end_def)
    qed simp
  qed
  from loop_all [OF this _ links, of "{}" "[]"] dec show ?thesis
    by (simp add: decoded_stream_def)
next
  case False
  then have ne: "msgs \<noteq> []" and l: "nlh_Type (Header (last msgs)) = NLMSG_DONE" by auto
  let ?b = "butlast msgs"
  have split: "msgs = ?b @ [last msgs]" using ne by simp
  have sub: "set ?b \<subseteq> set msgs" by (meson in_set_butlastD subsetI)
  have b1: "\<forall>m\<in>set ?b. nlh_Type (Header m) \<noteq> NLMSG_DONE"
    using nd by (simp add: no_done_before_end_def)
  have b2: "\<forall>m\<in>set ?b. is_NEWADDR m \<longrightarrow> SizeofIfAddrmsg \<le> length (Data m) \<and> index_of m \<noteq> 0"
    using dec sub by (auto simp: decoded_stream_def)
  have b3: "\<forall>m\<in>set ?b. is_NEWADDR m \<longrightarrow>
      newLink k (IfAddrmsg_at (Data m)) = (R (index_of m), T (index_of m))"
    using links sub by blast
  have si: "stream_indices msgs = stream_indices ?b"
    using stream_indices_snoc_done [OF l, of ?b] split by simp
  have "interfaceTable_loop k 0 msgs {} [] = interfaceTable_loop k 0 (?b @ last msgs # []) {} []"
    using split by simp
  also have "\<dots> = interfaceTable_loop k 0 ?b {} []"
    by (rule loop_done [OF l])
  finally show ?thesis using loop_all [OF b1 b2 b3, of "{}" "[]"] si by simp
qed

text \<open>Every interface of the stream, resolved or not.\<close>

lemma interfaceTable_loop_resolved:
  assumes "no_done_before_end msgs" and "decoded_stream msgs"
  shows "fst (interfaceTable_loop k 0 msgs {} []) =
     Ok (List.map_filter (resolved k) (first_seen_order (stream_indices msgs)))"
proof -
  let ?T = "\<lambda>i. snd (newLink k \<lparr>ifa_Family = 0, ifa_Prefixlen = 0, ifa_Flags = 0, ifa_Scope = 0, ifa_Index = i\<rparr>)"
  have L: "newLink k ifam = (resolved k (ifa_Index ifam), ?T (ifa_Index ifam))" for ifam
  proof -
    have "newLink k ifam = newLink k \<lparr>ifa_Family = 0, ifa_Prefixlen = 0, ifa_Flags = 0, ifa_Scope = 0, ifa_Index = ifa_Index ifam\<rparr>"
      by (rule newLink_cong) simp
    then have "snd (newLink k ifam) = ?T (ifa_Index ifam)" by simp
    then show ?thesis using newLink_resolved [of k ifam] by (simp add: prod_eq_iff)
  qed
  have "\<forall>m\<in>set msgs. is_NEWADDR m \<longrightarrow>
      newLink k (IfAddrmsg_at (Data m)) = (resolved k (index_of m), ?T (index_of m))"
    unfolding index_of_def by (intro ballI impI) (rule L)
  from loop_all_end [OF assms this] show ?thesis by simp
qed

lemma interfaceTable_loop_snapshots:
  assumes "no_done_before_end msgs" and "decoded_stream msgs" and "all_queries_succeed k msgs"
  shows "interfaceTable_loop k 0 msgs {} [] =
     (Ok (map (snapshot k) (first_seen_order (stream_indices msgs))),
      concat (map (query_requests k) (first_seen_order (stream_indices msgs))))"
proof -
  let ?R = "\<lambda>i. if i \<in> set (stream_indices msgs) then Some (snapshot k i) else None"
  have l: "\<forall>m\<in>set msgs. is_NEWADDR m \<longrightarrow>
      newLink k (IfAddrmsg_at (Data m)) = (?R (index_of m), query_requests k (index_of m))"
  proof (intro ballI impI)
    fix m assume m: "m \<in> set msgs" "is_NEWADDR m"
    then have i: "index_of m \<in> set (stream_indices msgs)" by (simp add: stream_indices_def)
    then have q: "queries_succeed k (ifa_Index (IfAddrmsg_at (Data m)))"
      using assms(3) by (simp add: all_queries_succeed_def index_of_def)
    show "newLink k (IfAddrmsg_at (Data m)) = (?R (index_of m), query_requests k (index_of m))"
      using newLink_resolved [of k "IfAddrmsg_at (Data m)"] newLink_requests [OF q] q i
      by (cases "newLink k (IfAddrmsg_at (Data m))") (simp add: resolved_def index_of_def)
  qed
  have "List.map_filter ?R (first_seen_order (stream_indices msgs)) =
      map (\<lambda>x. the (?R x)) (first_seen_order (stream_indices msgs))"
    by (rule map_filter_all_Some) simp
  also have "\<dots> = map (snapshot k) (first_seen_order (stream_indices msgs))"
    by (rule map_cong) simp_all
  finally show ?thesis using loop_all_end [OF assms(1,2) l] by simp
qed


lemma Index_snapshot [simp]: "Index (snapshot k j) = uint j"
  by (simp add: snapshot_def)

lemma Name_snapshot [simp]: "Name (snapshot k j) = queried_name k j"
  by (simp add: snapshot_def)




text \<open>The attribute an address is built from.\<close>

lemma find_after_prefix:
  "\<forall>a\<in>set pre. \<not> P a \<Longrightarrow> P l \<Longrightarrow> find P (pre @ l # rest) = Some l"
  by (induction pre) auto

lemma newAddr_loop_none:
  "find (\<lambda>a. \<not> (p \<and> rta_Type (Attr a) = IFA_ADDRESS)) attrs = None \<Longrightarrow>
   newAddr_loop ifam p attrs = Ok None"
  by (induction attrs) (auto split: if_splits)

lemma newAddr_single_local:
  "rta_Type (Attr l) = IFA_LOCAL \<Longrightarrow> newAddr ifam [l] = newAddr_loop ifam False [l]"
  using LOCAL_neq_ADDRESS by (simp add: newAddr_def)

lemma CIDRMask_over:
  "bits < ones \<Longrightarrow> CIDRMask ones bits = []"
  by (simp add: CIDRMask_def)

lemma replicate_numeral: "replicate (numeral n) x = x # replicate (pred_numeral n) x"
  by (simp add: numeral_eq_Suc)

text \<open>The header cast on a whole header.\<close>

lemma IfAddrmsg_cast_whole:
  "SizeofIfAddrmsg \<le> length d \<Longrightarrow> IfAddrmsg_cast d beyond = IfAddrmsg_at d"
  by (auto simp: IfAddrmsg_cast_def IfAddrmsg_at_def read_at_def SizeofIfAddrmsg_def)

lemma interfaceTable_loop_mem_whole:
  "complete_headers (map fst mms) \<Longrightarrow>
   interfaceTable_loop_mem k ifindex mms im ift = interfaceTable_loop k ifindex (map fst mms) im ift"
proof (induction mms arbitrary: im ift ifindex)
  case Nil
  then show ?case by simp
next
  case (Cons mb mms)
  obtain m b where mb: "mb = (m, b)" by (cases mb)
  from Cons.prems have c: "complete_headers (map fst mms)"
    and w: "nlh_Type (Header m) = RTM_NEWADDR \<Longrightarrow> SizeofIfAddrmsg \<le> length (Data m)"
    by (simp_all add: complete_headers_def is_NEWADDR_def mb)
  note IH = Cons.IH [OF c]
  show ?case
  proof (cases "nlh_Type (Header m) = RTM_NEWADDR")
    case False
    then show ?thesis by (simp add: mb IH)
  next
    case True
    from w [OF True] have n: "Data m \<noteq> []" "\<not> length (Data m) < SizeofIfAddrmsg"
      by (auto simp: SizeofIfAddrmsg_def)
    show ?thesis
      using True n
      by (simp add: mb IH IfAddrmsg_cast_whole [OF w [OF True]] Let_def split: prod.splits)
  qed
qed

lemma addrTable_loop_mem_whole:
  "complete_headers (map fst mms) \<Longrightarrow>
   addrTable_loop_mem k ift ifi mms ifat = addrTable_loop k ift ifi (map fst mms) ifat"
proof (induction mms arbitrary: ifat ift ifi)
  case Nil
  then show ?case by simp
next
  case (Cons mb mms)
  obtain m b where mb: "mb = (m, b)" by (cases mb)
  from Cons.prems have c: "complete_headers (map fst mms)"
    and w: "nlh_Type (Header m) = RTM_NEWADDR \<Longrightarrow> SizeofIfAddrmsg \<le> length (Data m)"
    by (simp_all add: complete_headers_def is_NEWADDR_def mb)
  note IH = Cons.IH [OF c]
  show ?case
  proof (cases "nlh_Type (Header m) = RTM_NEWADDR")
    case False
    then show ?thesis by (simp add: mb IH)
  next
    case True
    from w [OF True] have n: "Data m \<noteq> []" "\<not> length (Data m) < SizeofIfAddrmsg"
      by (auto simp: SizeofIfAddrmsg_def)
    show ?thesis
      using True n
      by (simp add: mb IH IfAddrmsg_cast_whole [OF w [OF True]]
            split: sum.splits outcome.splits option.splits bool.splits)
  qed
qed

text \<open>The sample stream.\<close>

lemma ex_no_done: "no_done_before_end ex_stream"
  by (simp add: no_done_before_end_def ex_defs const_defs)

lemma ex_decoded: "decoded_stream ex_stream"
  by (simp add: decoded_stream_def is_NEWADDR_def index_of_def ex_defs const_defs IfAddrmsg_at_def le32_def)

lemma ex_indices: "stream_indices ex_stream = [1, 2, 1]"
  by (simp add: stream_indices_def is_NEWADDR_def index_of_def ex_defs const_defs IfAddrmsg_at_def le32_def)

lemma ex_complete: "complete_headers ex_stream"
  using ex_decoded by (rule decoded_complete)

subsection \<open>C1: one record per interface index, in first-seen order\<close>

text \<open>
  Claim C1. Take a decoded stream with no end-of-dump marker before its end: each of its
  new-address records carries its whole 8-byte header and a positive interface index, as
  the kernel writes them. Let the three sub-queries (\<open>indexToName\<close>, then \<open>nameToMTU\<close>
  and \<open>nameToFlags\<close> on the name returned) succeed for every index of the stream. Then
  \<open>interfaceTable(0)\<close> returns exactly as many records as the stream has distinct
  interface indices; no index occurs twice; the indices stand in the order in which the
  stream first shows them; the record of an index holds the name, the MTU and the flags
  its three sub-queries returned, that is the name the kernel left for SIOCGIFNAME with
  its NUL bytes trimmed, the signed 32 bits it left for SIOCGIFMTU and the translation of
  the 32 bits it left for SIOCGIFFLAGS; and the three queries are issued once per index,
  when the index is first met, after the one dump request.
\<close>

theorem interfaceTable_all_first_seen:
  assumes "NetlinkRIB k = Inr tab" and "ParseNetlinkMessage k tab = Inr msgs"
    and "no_done_before_end msgs" and "decoded_stream msgs" and "all_queries_succeed k msgs"
  shows "\<exists>ift. fst (interfaceTable k 0) = Ok ift
     \<and> length ift = card (set (stream_indices msgs))
     \<and> distinct (map Index ift)
     \<and> map Index ift = map uint (first_seen_order (stream_indices msgs))
     \<and> ift = map (snapshot k) (first_seen_order (stream_indices msgs))
     \<and> ift = map (kernel_record k) (first_seen_order (stream_indices msgs))
     \<and> snd (interfaceTable k 0) =
         EvNetlinkRIB # concat (map (query_requests k) (first_seen_order (stream_indices msgs)))
     \<and> snd (interfaceTable k 0) =
         EvNetlinkRIB # concat (map (kernel_requests k) (first_seen_order (stream_indices msgs)))"
proof -
  let ?is = "first_seen_order (stream_indices msgs)"
  let ?ift = "map (snapshot k) ?is"
  have q: "queries_succeed k i" if "i \<in> set ?is" for i
    using that assms(5) by (simp add: all_queries_succeed_def)
  have res: "interfaceTable k 0 = (Ok ?ift, EvNetlinkRIB # concat (map (query_requests k) ?is))"
    using interfaceTable_loop_snapshots [OF assms(3-5)] assms(1,2) by (simp add: interfaceTable_def)
  have mi: "map Index ?ift = map uint ?is" by (simp add: snapshot_def)
  have d: "distinct (map Index ?ift)"
    unfolding mi by (auto simp: distinct_map intro!: inj_onI word_uint_eqI)
  have kr: "?ift = map (kernel_record k) ?is"
    using q kernel_record_eq by (intro map_cong) simp_all
  have kq: "map (query_requests k) ?is = map (kernel_requests k) ?is"
    using q kernel_record_eq by (intro map_cong) simp_all
  show ?thesis
  proof (intro exI [of _ ?ift] conjI)
    show "fst (interfaceTable k 0) = Ok ?ift" using res by simp
    show "length ?ift = card (set (stream_indices msgs))" by (simp add: length_first_seen_order)
    show "distinct (map Index ?ift)" by (rule d)
    show "map Index ?ift = map uint ?is" by (rule mi)
    show "?ift = map (snapshot k) ?is" by (rule refl)
    show "?ift = map (kernel_record k) ?is" by (rule kr)
    show "snd (interfaceTable k 0) = EvNetlinkRIB # concat (map (query_requests k) ?is)"
      using res by simp
    show "snd (interfaceTable k 0) = EvNetlinkRIB # concat (map (kernel_requests k) ?is)"
      using res kq by simp
  qed
qed

text \<open>On the sample kernel: two records, \<open>lo\<close> then \<open>wlan0\<close>, for the indices 1, 2, 1.\<close>

lemma ex_all_queries: "all_queries_succeed ex_kernel ex_stream"
  by (simp add: all_queries_succeed_def ex_indices queries_succeed_def queried_name_def
        indexToName_def nameToMTU_def nameToFlags_def Trim_NUL_def is_NUL_def ex_kernel_def IFNAMSIZ_def)

lemma ex_snapshots: "snapshot ex_kernel 1 = ex_lo" "snapshot ex_kernel 2 = ex_wlan0"
  by (simp_all add: snapshot_def queried_name_def indexToName_def nameToMTU_def nameToFlags_def
        Trim_NUL_def is_NUL_def linkFlags_def flag_defs ex_kernel_def ex_lo_def ex_wlan0_def IFNAMSIZ_def)

theorem interfaceTable_all_first_seen_witness:
  "no_done_before_end ex_stream \<and> decoded_stream ex_stream \<and> all_queries_succeed ex_kernel ex_stream
   \<and> stream_indices ex_stream = [1, 2, 1]
   \<and> fst (interfaceTable ex_kernel 0) = Ok [ex_lo, ex_wlan0]
   \<and> snd (interfaceTable ex_kernel 0) =
       [EvNetlinkRIB,
        EvSocket, EvIoctlName 1, EvClose 3, EvSocket, EvIoctlMTU ''lo'', EvClose 3,
        EvSocket, EvIoctlFlags ''lo'', EvClose 3,
        EvSocket, EvIoctlName 2, EvClose 3, EvSocket, EvIoctlMTU ''wlan0'', EvClose 3,
        EvSocket, EvIoctlFlags ''wlan0'', EvClose 3]"
proof -
  have r: "NetlinkRIB ex_kernel = Inr []" and p: "ParseNetlinkMessage ex_kernel [] = Inr ex_stream"
    by (simp_all add: ex_kernel_def)
  have f: "first_seen_order (stream_indices ex_stream) = [1, 2]" by (simp add: ex_indices)
  have kr: "kernel_requests ex_kernel 1 =
      [EvSocket, EvIoctlName 1, EvClose 3, EvSocket, EvIoctlMTU ''lo'', EvClose 3,
       EvSocket, EvIoctlFlags ''lo'', EvClose 3]"
    "kernel_requests ex_kernel 2 =
      [EvSocket, EvIoctlName 2, EvClose 3, EvSocket, EvIoctlMTU ''wlan0'', EvClose 3,
       EvSocket, EvIoctlFlags ''wlan0'', EvClose 3]"
    by (simp_all add: kernel_requests_def kernel_name_def Trim_NUL_def is_NUL_def ex_kernel_def IFNAMSIZ_def)
  from interfaceTable_all_first_seen [OF r p ex_no_done ex_decoded ex_all_queries]
  obtain ift where a: "fst (interfaceTable ex_kernel 0) = Ok ift"
    and b: "ift = map (snapshot ex_kernel) (first_seen_order (stream_indices ex_stream))"
    and c: "snd (interfaceTable ex_kernel 0) =
         EvNetlinkRIB # concat (map (kernel_requests ex_kernel) (first_seen_order (stream_indices ex_stream)))"
    by blast
  from a b have 1: "fst (interfaceTable ex_kernel 0) = Ok [ex_lo, ex_wlan0]"
    unfolding f by (simp add: ex_snapshots)
  from c have 2: "snd (interfaceTable ex_kernel 0) =
       [EvNetlinkRIB,
        EvSocket, EvIoctlName 1, EvClose 3, EvSocket, EvIoctlMTU ''lo'', EvClose 3,
        EvSocket, EvIoctlFlags ''lo'', EvClose 3,
        EvSocket, EvIoctlName 2, EvClose 3, EvSocket, EvIoctlMTU ''wlan0'', EvClose 3,
        EvSocket, EvIoctlFlags ''wlan0'', EvClose 3]"
    unfolding f by (simp add: kr)
  from ex_no_done ex_decoded ex_all_queries ex_indices 1 2 show ?thesis by (intro conjI)
qed

subsection \<open>C2: the end-of-dump marker stops both loops\<close>

text \<open>
  Claim C2. When the message at position \<open>P\<close> of a decoded stream is the end-of-dump
  marker, the loop of \<open>interfaceTable\<close> and the loop of \<open>addrTable\<close> return on the
  whole stream what they return on its first \<open>P\<close> messages, results and kernel requests
  alike: nothing at or after \<open>P\<close> is looked at. Reaching the marker ends the loop with
  the table built so far and no error.
\<close>

theorem done_marker_stops_iteration:
  assumes "P < length msgs" and "nlh_Type (Header (msgs ! P)) = NLMSG_DONE"
  shows "interfaceTable_loop k ifindex msgs im ift = interfaceTable_loop k ifindex (take P msgs) im ift
     \<and> addrTable_loop k ift' ifi msgs ifat = addrTable_loop k ift' ifi (take P msgs) ifat
     \<and> interfaceTable_loop k ifindex (drop P msgs) im ift = (Ok ift, [])
     \<and> addrTable_loop k ift' ifi (drop P msgs) ifat = Ok ifat"
proof -
  have split: "msgs = take P msgs @ msgs ! P # drop (Suc P) msgs"
    using assms(1) by (rule id_take_nth_drop)
  have d: "drop P msgs = msgs ! P # drop (Suc P) msgs"
    using assms(1) by (rule Cons_nth_drop_Suc [symmetric])
  have 1: "interfaceTable_loop k ifindex msgs im ift = interfaceTable_loop k ifindex (take P msgs) im ift"
    using loop_done [OF assms(2), of k ifindex "take P msgs" "drop (Suc P) msgs" im ift] split by simp
  have 2: "addrTable_loop k ift' ifi msgs ifat = addrTable_loop k ift' ifi (take P msgs) ifat"
    using addr_loop_done [OF assms(2), of k ift' ifi "take P msgs" "drop (Suc P) msgs" ifat] split by simp
  have 3: "interfaceTable_loop k ifindex (drop P msgs) im ift = (Ok ift, [])"
    using assms(2) by (subst d) simp
  have 4: "addrTable_loop k ift' ifi (drop P msgs) ifat = Ok ifat"
    using assms(2) by (subst d) simp
  from 1 2 3 4 show ?thesis by (intro conjI)
qed

theorem done_marker_stops_iteration_witness:
  "1 < length ex_stream_done \<and> nlh_Type (Header (ex_stream_done ! 1)) = NLMSG_DONE
   \<and> fst (interfaceTable_loop ex_kernel 0 ex_stream_done {} []) = Ok [ex_lo]
   \<and> addrTable_loop ex_kernel [ex_lo] None ex_stream_done [] =
       Ok [\<lparr>IP = IPv4 127 0 0 1, Mask = [0xff, 0, 0, 0]\<rparr>]"
proof -
  have l: "1 < length ex_stream_done" by (simp add: ex_defs)
  have t: "nlh_Type (Header (ex_stream_done ! 1)) = NLMSG_DONE" by (simp add: ex_defs)
  have tk: "take 1 ex_stream_done = [ex_msg RTM_NEWADDR [2, 8, 0, 0, 1, 0, 0, 0]]"
    by (simp add: ex_defs)
  have a: "fst (interfaceTable_loop ex_kernel 0 (take 1 ex_stream_done) {} []) = Ok [ex_lo]"
    unfolding tk by (simp add: ex_defs const_defs query_defs flag_defs)
  have b: "addrTable_loop ex_kernel [ex_lo] None (take 1 ex_stream_done) [] =
       Ok [\<lparr>IP = IPv4 127 0 0 1, Mask = [0xff, 0, 0, 0]\<rparr>]"
    unfolding tk by (simp add: ex_defs const_defs addr_defs IfAddrmsg_at_def le32_def)
  from done_marker_stops_iteration [OF l t, of ex_kernel 0 "{}" "[]" "[ex_lo]" None "[]"] a b l t
  show ?thesis by simp
qed

subsection \<open>C3: a local-address attribute makes the address attributes skipped\<close>

text \<open>
  Claim C3, as amended. Take a new-address record whose attribute list holds a
  local-address attribute with nothing but attributes of the address kind before it.
  Every attribute of the address kind is skipped (the result is that of the list without
  them), and the result is that of the record holding that local-address attribute
  alone: for family \<open>AF_INET\<close>, when its value has at least four bytes, the one address
  built from the first four bytes of its value; for family \<open>AF_INET6\<close> the one address
  built from a copy of its value.
\<close>

theorem newAddr_local_present:
  assumes "attrs = pre @ l # rest"
    and "\<forall>a\<in>set pre. rta_Type (Attr a) = IFA_ADDRESS"
    and "rta_Type (Attr l) = IFA_LOCAL"
  shows "newAddr ifam attrs = newAddr ifam (filter (\<lambda>b. rta_Type (Attr b) \<noteq> IFA_ADDRESS) attrs)
     \<and> newAddr ifam attrs = newAddr ifam [l]
     \<and> (ifa_Family ifam = AF_INET \<and> 4 \<le> length (Value l) \<longrightarrow>
          newAddr ifam attrs =
            Ok (Some \<lparr>IP = IPv4 (Value l ! 0) (Value l ! 1) (Value l ! 2) (Value l ! 3),
                      Mask = CIDRMask (uint (ifa_Prefixlen ifam)) 32\<rparr>))
     \<and> (ifa_Family ifam = AF_INET6 \<longrightarrow>
          newAddr ifam attrs =
            Ok (Some \<lparr>IP = copy_IPv6 (Value l), Mask = CIDRMask (uint (ifa_Prefixlen ifam)) 128\<rparr>))"
proof -
  have h: "has_IFA_LOCAL attrs"
    using assms(1,3) by (auto simp: has_IFA_LOCAL_iff)
  have "find (\<lambda>a. \<not> (True \<and> rta_Type (Attr a) = IFA_ADDRESS)) (pre @ l # rest) = Some l"
    using assms(2,3) LOCAL_neq_ADDRESS by (intro find_after_prefix) simp_all
  then have b: "newAddr ifam attrs = newAddr_loop ifam False [l]"
    using h assms(1) unfolding newAddr_def by (simp only: newAddr_loop_first)
  have s: "newAddr ifam attrs = newAddr ifam (filter (\<lambda>b. rta_Type (Attr b) \<noteq> IFA_ADDRESS) attrs)"
    using h by (simp add: newAddr_def has_IFA_LOCAL_filter newAddr_loop_skips)
  have o: "newAddr ifam attrs = newAddr ifam [l]"
    using b newAddr_single_local [OF assms(3)] by simp
  have v4: "newAddr ifam attrs =
            Ok (Some \<lparr>IP = IPv4 (Value l ! 0) (Value l ! 1) (Value l ! 2) (Value l ! 3),
                      Mask = CIDRMask (uint (ifa_Prefixlen ifam)) 32\<rparr>)"
    if "ifa_Family ifam = AF_INET \<and> 4 \<le> length (Value l)"
    using that b by (simp add: IPv4len_def)
  have v6: "newAddr ifam attrs =
            Ok (Some \<lparr>IP = copy_IPv6 (Value l), Mask = CIDRMask (uint (ifa_Prefixlen ifam)) 128\<rparr>)"
    if "ifa_Family ifam = AF_INET6"
    using that b by (simp add: IPv6len_def AF_INET_def AF_INET6_def)
  from s o v4 v6 show ?thesis by blast
qed

theorem newAddr_local_present_witness:
  "ex_p2p_attrs = [ex_attr IFA_ADDRESS [10, 0, 0, 5]] @ ex_attr IFA_LOCAL [10, 0, 0, 6] # []
   \<and> rta_Type (Attr (ex_attr IFA_ADDRESS [10, 0, 0, 5])) = IFA_ADDRESS
   \<and> rta_Type (Attr (ex_attr IFA_LOCAL [10, 0, 0, 6])) = IFA_LOCAL
   \<and> ifa_Family ex_ifam = AF_INET
   \<and> newAddr ex_ifam ex_p2p_attrs = newAddr ex_ifam [ex_attr IFA_LOCAL [10, 0, 0, 6]]
   \<and> newAddr ex_ifam ex_p2p_attrs = Ok (Some \<lparr>IP = IPv4 10 0 0 6, Mask = [0xff, 0xff, 0xff, 0]\<rparr>)"
proof -
  let ?l = "ex_attr IFA_LOCAL [10, 0, 0, 6]"
  have e: "ex_p2p_attrs = [ex_attr IFA_ADDRESS [10, 0, 0, 5]] @ ?l # []"
    by (simp add: ex_p2p_attrs_def)
  have p: "\<forall>a\<in>set [ex_attr IFA_ADDRESS [10, 0, 0, 5]]. rta_Type (Attr a) = IFA_ADDRESS"
    by (simp add: ex_attr_def)
  have ta: "rta_Type (Attr (ex_attr IFA_ADDRESS [10, 0, 0, 5])) = IFA_ADDRESS" by (simp add: ex_attr_def)
  have t: "rta_Type (Attr ?l) = IFA_LOCAL" by (simp add: ex_attr_def)
  have f: "ifa_Family ex_ifam = AF_INET" by (simp add: ex_ifam_def)
  have n: "4 \<le> length (Value ?l)" by (simp add: ex_attr_def)
  have m: "CIDRMask (uint (ifa_Prefixlen ex_ifam)) 32 = [0xff, 0xff, 0xff, 0]"
    by (simp add: ex_defs CIDRMask_def const_defs)
  have v: "Value ?l = [10, 0, 0, 6]" by (simp add: ex_attr_def)
  note T = newAddr_local_present [OF e p t, of ex_ifam]
  note 1 = T [THEN conjunct2, THEN conjunct1]
  note T4 = T [THEN conjunct2, THEN conjunct2, THEN conjunct1]
  from T4 f n have 2: "newAddr ex_ifam ex_p2p_attrs = Ok (Some \<lparr>IP = IPv4 10 0 0 6, Mask = [0xff, 0xff, 0xff, 0]\<rparr>)"
    unfolding m v by simp
  from e ta t f 1 2 show ?thesis by (intro conjI)
qed

text \<open>
  The claim as stated fails on a record of another family (here 45), which has both
  attributes and yields no address, and on a record of family \<open>AF_INET\<close> whose
  local-address value has two bytes, which panics. It also fails when an attribute of a
  third kind comes first: with a label \<open>eth0\<close> before peer 10.0.0.5 and local 10.0.0.6 the
  address is 101.116.104.48, the bytes of the label, because the second loop of
  \<open>newAddr\<close> builds from the first attribute it does not skip without looking at its
  kind. The amended claim says nothing of such lists.
\<close>

theorem newAddr_local_not_used_counterexample:
  "newAddr (ex_ifam\<lparr>ifa_Family := 45\<rparr>) [ex_attr IFA_LOCAL [8], ex_attr IFA_ADDRESS [9]] = Ok None
   \<and> newAddr ex_ifam [ex_attr IFA_ADDRESS [10, 0, 0, 5], ex_attr IFA_LOCAL [10, 0]] = Fault PanicIndexOutOfRange
   \<and> first_local ex_label_attrs = Some (ex_attr IFA_LOCAL [10, 0, 0, 6])
   \<and> list_ex (\<lambda>a. rta_Type (Attr a) = IFA_ADDRESS) ex_label_attrs
   \<and> newAddr ex_ifam ex_label_attrs =
       Ok (Some \<lparr>IP = IPv4 0x65 0x74 0x68 0x30, Mask = [0xff, 0xff, 0xff, 0]\<rparr>)
   \<and> newAddr ex_ifam ex_label_attrs \<noteq> newAddr ex_ifam [ex_attr IFA_LOCAL [10, 0, 0, 6]]"
  by (simp add: ex_defs const_defs addr_defs first_local_def)

subsection \<open>C4: address construction dispatches on the family\<close>

text \<open>
  Claim C4, as amended. Let \<open>a\<close> be the attribute \<open>newAddr\<close> builds from, the first one
  it does not skip. For family \<open>AF_INET\<close>, when the value of \<open>a\<close> has at least four
  bytes, the result is the IPv4 address of its first four bytes in the 16-byte form of
  \<open>net.IPv4\<close> (the twelve bytes of \<open>v4InV6Prefix\<close>, then the four bytes), with the mask
  \<open>CIDRMask(Prefixlen, 32)\<close>: four bytes for a prefix length up to 32, nil above. For
  family \<open>AF_INET6\<close> the result is a fresh 16-byte address that starts with the value (cut
  at 16 bytes, filled with zero bytes when shorter), with the mask
  \<open>CIDRMask(Prefixlen, 128)\<close>: sixteen bytes for a prefix length up to 128, nil above. For
  any other family, and when there is no attribute to build from, the result is nil: no
  address, no error and no panic.
\<close>

theorem newAddr_family_dispatch:
  "(ifa_Family ifam = AF_INET \<and> first_usable attrs = Some a \<and> 4 \<le> length (Value a) \<longrightarrow>
      newAddr ifam attrs =
        Ok (Some \<lparr>IP = v4InV6Prefix @ take 4 (Value a),
                  Mask = CIDRMask (uint (ifa_Prefixlen ifam)) 32\<rparr>)
      \<and> v4InV6Prefix @ take 4 (Value a) = IPv4 (Value a ! 0) (Value a ! 1) (Value a ! 2) (Value a ! 3)
      \<and> length (v4InV6Prefix @ take 4 (Value a)) = 16
      \<and> (uint (ifa_Prefixlen ifam) \<le> 32 \<longrightarrow> length (CIDRMask (uint (ifa_Prefixlen ifam)) 32) = 4)
      \<and> (32 < uint (ifa_Prefixlen ifam) \<longrightarrow> CIDRMask (uint (ifa_Prefixlen ifam)) 32 = []))
   \<and> (ifa_Family ifam = AF_INET6 \<and> first_usable attrs = Some a \<longrightarrow>
      newAddr ifam attrs =
        Ok (Some \<lparr>IP = copy_IPv6 (Value a), Mask = CIDRMask (uint (ifa_Prefixlen ifam)) 128\<rparr>)
      \<and> length (copy_IPv6 (Value a)) = 16
      \<and> take (length (Value a)) (copy_IPv6 (Value a)) = take 16 (Value a)
      \<and> (length (Value a) = 16 \<longrightarrow> copy_IPv6 (Value a) = Value a)
      \<and> (uint (ifa_Prefixlen ifam) \<le> 128 \<longrightarrow> length (CIDRMask (uint (ifa_Prefixlen ifam)) 128) = 16)
      \<and> (128 < uint (ifa_Prefixlen ifam) \<longrightarrow> CIDRMask (uint (ifa_Prefixlen ifam)) 128 = []))
   \<and> (ifa_Family ifam \<noteq> AF_INET \<and> ifa_Family ifam \<noteq> AF_INET6 \<longrightarrow> newAddr ifam attrs = Ok None)
   \<and> (first_usable attrs = None \<longrightarrow> newAddr ifam attrs = Ok None)"
proof (intro conjI impI)
  assume h: "ifa_Family ifam = AF_INET \<and> first_usable attrs = Some a \<and> 4 \<le> length (Value a)"
  then have "newAddr ifam attrs = newAddr_loop ifam False [a]"
    unfolding newAddr_def first_usable_def by (intro newAddr_loop_first) simp
  then show "newAddr ifam attrs =
        Ok (Some \<lparr>IP = v4InV6Prefix @ take 4 (Value a),
                  Mask = CIDRMask (uint (ifa_Prefixlen ifam)) 32\<rparr>)"
    using h by (simp add: IPv4len_def IPv4_def take4)
  show "v4InV6Prefix @ take 4 (Value a) = IPv4 (Value a ! 0) (Value a ! 1) (Value a ! 2) (Value a ! 3)"
    using h by (simp add: IPv4_def take4)
  show "length (v4InV6Prefix @ take 4 (Value a)) = 16"
    using h by (simp add: v4InV6Prefix_def)
next
  assume "uint (ifa_Prefixlen ifam) \<le> 32"
  then show "length (CIDRMask (uint (ifa_Prefixlen ifam)) 32) = 4"
    by (simp add: length_CIDRMask)
next
  assume "32 < uint (ifa_Prefixlen ifam)"
  then show "CIDRMask (uint (ifa_Prefixlen ifam)) 32 = []" by (rule CIDRMask_over)
next
  assume h: "ifa_Family ifam = AF_INET6 \<and> first_usable attrs = Some a"
  then have "newAddr ifam attrs = newAddr_loop ifam False [a]"
    unfolding newAddr_def first_usable_def by (intro newAddr_loop_first) simp
  then show "newAddr ifam attrs =
        Ok (Some \<lparr>IP = copy_IPv6 (Value a), Mask = CIDRMask (uint (ifa_Prefixlen ifam)) 128\<rparr>)"
    using h by (simp add: IPv6len_def AF_INET_def AF_INET6_def)
  show "length (copy_IPv6 (Value a)) = 16" by (rule length_copy_IPv6)
  show "take (length (Value a)) (copy_IPv6 (Value a)) = take 16 (Value a)"
    by (simp add: copy_IPv6_def IPv6len_def min_def)
next
  assume "length (Value a) = 16"
  then show "copy_IPv6 (Value a) = Value a" by (rule copy_IPv6_id)
next
  assume "uint (ifa_Prefixlen ifam) \<le> 128"
  then show "length (CIDRMask (uint (ifa_Prefixlen ifam)) 128) = 16"
    by (simp add: length_CIDRMask)
next
  assume "128 < uint (ifa_Prefixlen ifam)"
  then show "CIDRMask (uint (ifa_Prefixlen ifam)) 128 = []" by (rule CIDRMask_over)
next
  assume "ifa_Family ifam \<noteq> AF_INET \<and> ifa_Family ifam \<noteq> AF_INET6"
  then show "newAddr ifam attrs = Ok None"
    by (simp add: newAddr_def newAddr_loop_other_family)
next
  assume "first_usable attrs = None"
  then show "newAddr ifam attrs = Ok None"
    unfolding newAddr_def first_usable_def by (rule newAddr_loop_none)
qed

text \<open>
  On the sample record: 10.0.0.6/24 for family \<open>AF_INET\<close>, fe80::1/64 for \<open>AF_INET6\<close>,
  nothing for family 17 and nothing for a record without attributes.
\<close>

theorem newAddr_family_dispatch_witness:
  "ifa_Family ex_ifam = AF_INET
   \<and> first_usable ex_p2p_attrs = Some (ex_attr IFA_LOCAL [10, 0, 0, 6])
   \<and> newAddr ex_ifam ex_p2p_attrs =
       Ok (Some \<lparr>IP = [0, 0, 0, 0, 0, 0, 0, 0, 0, 0, 0xff, 0xff, 10, 0, 0, 6],
                 Mask = [0xff, 0xff, 0xff, 0]\<rparr>)
   \<and> ifa_Family (ex_ifam\<lparr>ifa_Family := AF_INET6, ifa_Prefixlen := 64\<rparr>) = AF_INET6
   \<and> first_usable [ex_attr IFA_ADDRESS [0xfe, 0x80, 0, 0, 0, 0, 0, 0, 0, 0, 0, 0, 0, 0, 0, 1]]
       = Some (ex_attr IFA_ADDRESS [0xfe, 0x80, 0, 0, 0, 0, 0, 0, 0, 0, 0, 0, 0, 0, 0, 1])
   \<and> newAddr (ex_ifam\<lparr>ifa_Family := AF_INET6, ifa_Prefixlen := 64\<rparr>)
         [ex_attr IFA_ADDRESS [0xfe, 0x80, 0, 0, 0, 0, 0, 0, 0, 0, 0, 0, 0, 0, 0, 1]] =
       Ok (Some \<lparr>IP = [0xfe, 0x80, 0, 0, 0, 0, 0, 0, 0, 0, 0, 0, 0, 0, 0, 1],
                 Mask = [0xff, 0xff, 0xff, 0xff, 0xff, 0xff, 0xff, 0xff, 0, 0, 0, 0, 0, 0, 0, 0]\<rparr>)
   \<and> newAddr (ex_ifam\<lparr>ifa_Family := 17\<rparr>) ex_p2p_attrs = Ok None
   \<and> first_usable [] = None
   \<and> newAddr ex_ifam [] = Ok None"
proof -
  let ?l = "ex_attr IFA_LOCAL [10, 0, 0, 6]"
  let ?a6 = "ex_attr IFA_ADDRESS [0xfe, 0x80, 0, 0, 0, 0, 0, 0, 0, 0, 0, 0, 0, 0, 0, 1]"
  let ?i6 = "ex_ifam\<lparr>ifa_Family := AF_INET6, ifa_Prefixlen := 64\<rparr>"
  have u: "first_usable ex_p2p_attrs = Some ?l"
    by (simp add: first_usable_def ex_defs const_defs)
  have f: "ifa_Family ex_ifam = AF_INET" by (simp add: ex_defs)
  have l: "4 \<le> length (Value ?l)" by (simp add: ex_defs)
  have m: "CIDRMask (uint (ifa_Prefixlen ex_ifam)) 32 = [0xff, 0xff, 0xff, 0]"
    by (simp add: ex_defs CIDRMask_def const_defs)
  have v: "v4InV6Prefix @ take 4 (Value ?l) = [0, 0, 0, 0, 0, 0, 0, 0, 0, 0, 0xff, 0xff, 10, 0, 0, 6]"
    by (simp add: ex_defs v4InV6Prefix_def)
  have u6: "first_usable [?a6] = Some ?a6" by (simp add: first_usable_def ex_defs const_defs)
  have f6: "ifa_Family ?i6 = AF_INET6" by simp
  have m6: "CIDRMask (uint (ifa_Prefixlen ?i6)) 128 =
      [0xff, 0xff, 0xff, 0xff, 0xff, 0xff, 0xff, 0xff, 0, 0, 0, 0, 0, 0, 0, 0]"
    by (simp add: CIDRMask_def const_defs)
  have v6: "copy_IPv6 (Value ?a6) = [0xfe, 0x80, 0, 0, 0, 0, 0, 0, 0, 0, 0, 0, 0, 0, 0, 1]"
    by (simp add: copy_IPv6_def ex_defs const_defs)
  have o: "ifa_Family (ex_ifam\<lparr>ifa_Family := 17\<rparr>) \<noteq> AF_INET \<and> ifa_Family (ex_ifam\<lparr>ifa_Family := 17\<rparr>) \<noteq> AF_INET6"
    by (simp add: const_defs)
  have n: "first_usable [] = None" by (simp add: first_usable_def)
  from newAddr_family_dispatch [of ex_ifam ex_p2p_attrs ?l, THEN conjunct1] u f l
  have 1: "newAddr ex_ifam ex_p2p_attrs =
       Ok (Some \<lparr>IP = [0, 0, 0, 0, 0, 0, 0, 0, 0, 0, 0xff, 0xff, 10, 0, 0, 6],
                 Mask = [0xff, 0xff, 0xff, 0]\<rparr>)"
    unfolding m v by simp
  from newAddr_family_dispatch [of ?i6 "[?a6]" ?a6, THEN conjunct2, THEN conjunct1] u6 f6
  have 2: "newAddr ?i6 [?a6] =
       Ok (Some \<lparr>IP = [0xfe, 0x80, 0, 0, 0, 0, 0, 0, 0, 0, 0, 0, 0, 0, 0, 1],
                 Mask = [0xff, 0xff, 0xff, 0xff, 0xff, 0xff, 0xff, 0xff, 0, 0, 0, 0, 0, 0, 0, 0]\<rparr>)"
    unfolding m6 v6 by simp
  from newAddr_family_dispatch [of "ex_ifam\<lparr>ifa_Family := 17\<rparr>" ex_p2p_attrs undefined] o
  have 3: "newAddr (ex_ifam\<lparr>ifa_Family := 17\<rparr>) ex_p2p_attrs = Ok None" by blast
  from newAddr_family_dispatch [of ex_ifam "[]" undefined] n
  have 4: "newAddr ex_ifam [] = Ok None" by blast
  from f u 1 f6 u6 2 3 n 4 show ?thesis by (intro conjI)
qed

text \<open>
  The claim as stated fails: the address of an \<open>AF_INET\<close> record has sixteen bytes, not
  four; a record without attributes yields no address; a value of two bytes panics for
  \<open>AF_INET\<close> and is filled up with zero bytes for \<open>AF_INET6\<close>; and a prefix length
  above the width (33 of 32, 129 of 128) gives a nil mask.
\<close>

theorem newAddr_four_byte_counterexample:
  "newAddr ex_ifam ex_p2p_attrs =
       Ok (Some \<lparr>IP = [0, 0, 0, 0, 0, 0, 0, 0, 0, 0, 0xff, 0xff, 10, 0, 0, 6],
                 Mask = [0xff, 0xff, 0xff, 0]\<rparr>)
   \<and> length [0, 0, 0, 0, 0, 0, 0, 0, 0, 0, 0xff, 0xff, 10, 0, 0, 6 :: byte] = 16
   \<and> newAddr ex_ifam [] = Ok None
   \<and> newAddr ex_ifam [ex_attr IFA_ADDRESS [10, 0]] = Fault PanicIndexOutOfRange
   \<and> newAddr (ex_ifam\<lparr>ifa_Prefixlen := 33\<rparr>) ex_p2p_attrs =
       Ok (Some \<lparr>IP = [0, 0, 0, 0, 0, 0, 0, 0, 0, 0, 0xff, 0xff, 10, 0, 0, 6], Mask = []\<rparr>)
   \<and> newAddr (ex_ifam\<lparr>ifa_Family := AF_INET6, ifa_Prefixlen := 129\<rparr>)
         [ex_attr IFA_ADDRESS [0xfe, 0x80, 0, 0, 0, 0, 0, 0, 0, 0, 0, 0, 0, 0, 0, 1]] =
       Ok (Some \<lparr>IP = [0xfe, 0x80, 0, 0, 0, 0, 0, 0, 0, 0, 0, 0, 0, 0, 0, 1], Mask = []\<rparr>)
   \<and> newAddr (ex_ifam\<lparr>ifa_Family := AF_INET6, ifa_Prefixlen := 64\<rparr>) [ex_attr IFA_ADDRESS [0xfe, 0x80]] =
       Ok (Some \<lparr>IP = [0xfe, 0x80, 0, 0, 0, 0, 0, 0, 0, 0, 0, 0, 0, 0, 0, 0],
                 Mask = [0xff, 0xff, 0xff, 0xff, 0xff, 0xff, 0xff, 0xff, 0, 0, 0, 0, 0, 0, 0, 0]\<rparr>)"
  by (simp add: ex_defs const_defs addr_defs replicate_numeral)

subsection \<open>C5: the version check of the entry points\<close>

text \<open>
  Claim C5 says that every query entry point checks the API level on each call and uses
  the conventional lookup below the threshold. \<open>Interfaces\<close>, \<open>InterfaceAddrs\<close>,
  \<open>InterfaceByIndex\<close> and \<open>InterfaceAddrsByInterface\<close> do
  (\<open>gated_entry_points_conventional\<close>); \<open>InterfaceByName\<close> does not
  (\<open>InterfaceByName_no_detection\<close>), and it does not take the global. On a device at API
  level 29, with no override, \<open>Interfaces\<close> detects the level and calls
  \<open>net.Interfaces\<close>, while \<open>InterfaceByName("wlan0")\<close> detects nothing and resolves the
  name over netlink and the three ioctl queries.
\<close>

theorem InterfaceByName_ignores_gate:
  "androidApiLevel ex_kernel_29 initial_globals = (29, [EvDeviceApiLevel])
   \<and> Interfaces ex_kernel_29 initial_globals =
       (Ok [ex_lo, ex_wlan0], [EvDeviceApiLevel, EvNetInterfaces])
   \<and> InterfaceByName ex_kernel_29 ''wlan0'' =
       (Ok ex_wlan0,
        [EvNetlinkRIB,
         EvSocket, EvIoctlName 1, EvClose 3, EvSocket, EvIoctlMTU ''lo'', EvClose 3,
         EvSocket, EvIoctlFlags ''lo'', EvClose 3,
         EvSocket, EvIoctlName 2, EvClose 3, EvSocket, EvIoctlMTU ''wlan0'', EvClose 3,
         EvSocket, EvIoctlFlags ''wlan0'', EvClose 3])"
  by (simp add: entry_defs ex_defs const_defs query_defs flag_defs)

subsection \<open>C6: a failed sub-query drops the interface, in every mode\<close>





subsection \<open>C7: an empty name is refused before the kernel is asked\<close>

text \<open>
  Claim C7. \<open>InterfaceByName("")\<close> fails with \<open>errInvalidInterfaceName\<close>, wrapped as
  a route error, and issues no request at all: its list of events is empty.
\<close>

theorem InterfaceByName_empty_name:
  "InterfaceByName k [] = (Err (routeError errInvalidInterfaceName), [])"
  by (simp add: InterfaceByName_def)

subsection \<open>C8: the version override\<close>

text \<open>
  Claim C8 says that an override of 1 to 10 sends all later calls down the conventional
  path. The override itself is bucketed as claimed (\<open>SetAndroidVersion_buckets\<close>), and
  the four entry points that consult it follow it, but \<open>InterfaceByName\<close> never reads it:
  after \<open>SetAndroidVersion(5)\<close> the level is 0 and \<open>InterfaceByIndex(2)\<close> calls
  \<open>net.InterfaceByIndex\<close>, while \<open>InterfaceByName("wlan0")\<close> still asks netlink.
\<close>

theorem InterfaceByName_after_override:
  "androidApiLevel ex_kernel (SetAndroidVersion 5 initial_globals) = (0, [])
   \<and> InterfaceByIndex ex_kernel 2 (SetAndroidVersion 5 initial_globals) =
       (Ok ex_wlan0, [EvNetInterfaceByIndex 2])
   \<and> fst (InterfaceByName ex_kernel ''wlan0'') = Ok ex_wlan0
   \<and> take 4 (snd (InterfaceByName ex_kernel ''wlan0'')) = [EvNetlinkRIB, EvSocket, EvIoctlName 1, EvClose 3]"
  by (simp add: entry_defs SetAndroidVersion_def ex_defs const_defs query_defs flag_defs)

subsection \<open>C9: all addresses, when no interface could be resolved\<close>

text \<open>
  Claim C9 says that listing all addresses never dereferences a nil pointer. When the
  name of no interface can be queried, the interface table is empty; \<open>addrTable\<close> then
  takes the empty table for "one interface asked for" and reads \<open>ifi.Index\<close> of the nil
  \<open>ifi\<close> at the first new-address record: \<open>InterfaceAddrs\<close> panics, where \<open>Interfaces\<close>
  on the same kernel returns the empty list.
\<close>

theorem InterfaceAddrs_nil_dereference:
  "fst (Interfaces ex_kernel_noname initial_globals) = Ok []
   \<and> fst (InterfaceAddrs ex_kernel_noname initial_globals) = Fault PanicNilDereference"
  by (simp add: entry_defs ex_defs const_defs query_defs flag_defs)

subsection \<open>C10: what decoding reads\<close>

text \<open>
  Claim C10, as amended. The file checks no length before it reads. For new-address
  messages whose payload holds the whole 8-byte header, the header fields are read inside
  the payload: both loops return the same whatever memory follows the payloads, namely
  what they return on the messages alone. For a record of family \<open>AF_INET\<close> whose chosen
  attribute has a value of at least four bytes, the address is made of the first four
  bytes of the value and of nothing else; with a shorter value \<open>a.Value[...]\<close> panics
  (index out of range), and with an empty payload \<open>&m.Data[0]\<close> panics, so that neither
  reads past the end.
\<close>

theorem decoding_within_bounds:
  "(complete_headers (map fst mms) \<and> map fst mms' = map fst mms \<longrightarrow>
      interfaceTable_loop_mem k ifindex mms im ift = interfaceTable_loop_mem k ifindex mms' im ift
      \<and> addrTable_loop_mem k ift ifi mms ifat = addrTable_loop_mem k ift ifi mms' ifat
      \<and> interfaceTable_loop_mem k ifindex mms im ift = interfaceTable_loop k ifindex (map fst mms) im ift
      \<and> addrTable_loop_mem k ift ifi mms ifat = addrTable_loop k ift ifi (map fst mms) ifat)
   \<and> (ifa_Family ifam = AF_INET \<and> first_usable attrs = Some a \<and> 4 \<le> length (Value a) \<longrightarrow>
      newAddr ifam attrs =
        Ok (Some \<lparr>IP = v4InV6Prefix @ take 4 (Value a),
                  Mask = CIDRMask (uint (ifa_Prefixlen ifam)) 32\<rparr>))
   \<and> (ifa_Family ifam = AF_INET \<and> first_usable attrs = Some a \<and> length (Value a) < 4 \<longrightarrow>
      newAddr ifam attrs = Fault PanicIndexOutOfRange)
   \<and> (nlh_Type (Header m) = RTM_NEWADDR \<and> Data m = [] \<longrightarrow>
      interfaceTable_loop_mem k ifindex ((m, beyond) # mms) im ift = (Fault PanicIndexOutOfRange, [])
      \<and> addrTable_loop_mem k ift ifi ((m, beyond) # mms) ifat = Fault PanicIndexOutOfRange)"
proof (intro conjI impI)
  assume h: "complete_headers (map fst mms) \<and> map fst mms' = map fst mms"
  then have c: "complete_headers (map fst mms)" and c': "complete_headers (map fst mms')" by simp_all
  show "interfaceTable_loop_mem k ifindex mms im ift = interfaceTable_loop_mem k ifindex mms' im ift"
    using h by (simp add: interfaceTable_loop_mem_whole [OF c] interfaceTable_loop_mem_whole [OF c'])
  show "addrTable_loop_mem k ift ifi mms ifat = addrTable_loop_mem k ift ifi mms' ifat"
    using h by (simp add: addrTable_loop_mem_whole [OF c] addrTable_loop_mem_whole [OF c'])
  show "interfaceTable_loop_mem k ifindex mms im ift = interfaceTable_loop k ifindex (map fst mms) im ift"
    by (rule interfaceTable_loop_mem_whole [OF c])
  show "addrTable_loop_mem k ift ifi mms ifat = addrTable_loop k ift ifi (map fst mms) ifat"
    by (rule addrTable_loop_mem_whole [OF c])
next
  assume h: "ifa_Family ifam = AF_INET \<and> first_usable attrs = Some a \<and> 4 \<le> length (Value a)"
  then have "newAddr ifam attrs = newAddr_loop ifam False [a]"
    unfolding newAddr_def first_usable_def by (intro newAddr_loop_first) simp
  then show "newAddr ifam attrs =
        Ok (Some \<lparr>IP = v4InV6Prefix @ take 4 (Value a),
                  Mask = CIDRMask (uint (ifa_Prefixlen ifam)) 32\<rparr>)"
    using h by (simp add: IPv4len_def IPv4_def take4)
next
  assume h: "ifa_Family ifam = AF_INET \<and> first_usable attrs = Some a \<and> length (Value a) < 4"
  then have "newAddr ifam attrs = newAddr_loop ifam False [a]"
    unfolding newAddr_def first_usable_def by (intro newAddr_loop_first) simp
  then show "newAddr ifam attrs = Fault PanicIndexOutOfRange"
    using h by simp
next
  assume h: "nlh_Type (Header m) = RTM_NEWADDR \<and> Data m = []"
  then show "interfaceTable_loop_mem k ifindex ((m, beyond) # mms) im ift = (Fault PanicIndexOutOfRange, [])"
    using DONE_neq_NEWADDR by simp
  show "addrTable_loop_mem k ift ifi ((m, beyond) # mms) ifat = Fault PanicIndexOutOfRange"
    using h DONE_neq_NEWADDR by simp
qed

text \<open>
  On the sample stream, whose payloads hold whole headers, the tables are the same with
  the byte 1 and with the byte 2 behind each payload.
\<close>

theorem decoding_within_bounds_witness:
  "complete_headers (map fst (map (\<lambda>m. (m, ex_beyond 1)) ex_stream))
   \<and> map fst (map (\<lambda>m. (m, ex_beyond 2)) ex_stream) = map fst (map (\<lambda>m. (m, ex_beyond 1)) ex_stream)
   \<and> interfaceTable_loop_mem ex_kernel 0 (map (\<lambda>m. (m, ex_beyond 1)) ex_stream) {} []
       = interfaceTable_loop_mem ex_kernel 0 (map (\<lambda>m. (m, ex_beyond 2)) ex_stream) {} []
   \<and> fst (interfaceTable_loop_mem ex_kernel 0 (map (\<lambda>m. (m, ex_beyond 1)) ex_stream) {} [])
       = Ok [ex_lo, ex_wlan0]
   \<and> addrTable_loop_mem ex_kernel [] (Some ex_wlan0) (map (\<lambda>m. (m, ex_beyond 1)) ex_stream) []
       = addrTable_loop_mem ex_kernel [] (Some ex_wlan0) (map (\<lambda>m. (m, ex_beyond 2)) ex_stream) []
   \<and> addrTable_loop_mem ex_kernel [] (Some ex_wlan0) (map (\<lambda>m. (m, ex_beyond 1)) ex_stream) []
       = Ok [\<lparr>IP = [0, 0, 0, 0, 0, 0, 0, 0, 0, 0, 0xff, 0xff, 192, 168, 1, 7],
              Mask = [0xff, 0xff, 0xff, 0]\<rparr>]
   \<and> newAddr ex_ifam ex_p2p_attrs =
       Ok (Some \<lparr>IP = [0, 0, 0, 0, 0, 0, 0, 0, 0, 0, 0xff, 0xff, 10, 0, 0, 6],
                 Mask = [0xff, 0xff, 0xff, 0]\<rparr>)
   \<and> newAddr ex_ifam [ex_attr IFA_ADDRESS [10, 0]] = Fault PanicIndexOutOfRange
   \<and> interfaceTable_loop_mem ex_kernel 0 [(ex_msg RTM_NEWADDR [], ex_beyond 1)] {} []
       = (Fault PanicIndexOutOfRange, [])
   \<and> addrTable_loop_mem ex_kernel [ex_lo] None [(ex_msg RTM_NEWADDR [], ex_beyond 1)] []
       = Fault PanicIndexOutOfRange"
proof -
  let ?m1 = "map (\<lambda>m. (m, ex_beyond 1)) ex_stream" and ?m2 = "map (\<lambda>m. (m, ex_beyond 2)) ex_stream"
  let ?l = "ex_attr IFA_LOCAL [10, 0, 0, 6]" and ?s = "ex_attr IFA_ADDRESS [10, 0]"
  let ?e = "ex_msg RTM_NEWADDR []"
  have f1: "map fst ?m1 = ex_stream" and f2: "map fst ?m2 = map fst ?m1"
    by (simp_all add: comp_def)
  have c: "complete_headers (map fst ?m1)" unfolding f1 by (rule ex_complete)
  have h: "complete_headers (map fst ?m1) \<and> map fst ?m2 = map fst ?m1" using c f2 by (intro conjI)
  have it: "fst (interfaceTable_loop ex_kernel 0 ex_stream {} []) = Ok [ex_lo, ex_wlan0]"
    by (simp add: ex_defs const_defs query_defs flag_defs)
  have at: "addrTable_loop ex_kernel [] (Some ex_wlan0) ex_stream []
       = Ok [\<lparr>IP = [0, 0, 0, 0, 0, 0, 0, 0, 0, 0, 0xff, 0xff, 192, 168, 1, 7],
              Mask = [0xff, 0xff, 0xff, 0]\<rparr>]"
    by (simp add: ex_defs const_defs addr_defs IfAddrmsg_at_def le32_def)
  have u: "ifa_Family ex_ifam = AF_INET \<and> first_usable ex_p2p_attrs = Some ?l \<and> 4 \<le> length (Value ?l)"
    by (simp add: first_usable_def ex_defs const_defs)
  have us: "ifa_Family ex_ifam = AF_INET \<and> first_usable [?s] = Some ?s \<and> length (Value ?s) < 4"
    by (simp add: first_usable_def ex_defs const_defs)
  have e: "nlh_Type (Header ?e) = RTM_NEWADDR \<and> Data ?e = []" by (simp add: ex_msg_def)
  have m: "CIDRMask (uint (ifa_Prefixlen ex_ifam)) 32 = [0xff, 0xff, 0xff, 0]"
    by (simp add: ex_defs CIDRMask_def const_defs)
  have v: "v4InV6Prefix @ take 4 (Value ?l) = [0, 0, 0, 0, 0, 0, 0, 0, 0, 0, 0xff, 0xff, 10, 0, 0, 6]"
    by (simp add: ex_defs v4InV6Prefix_def)
  note A = decoding_within_bounds [where mms = ?m1 and mms' = ?m2 and k = ex_kernel and ifindex = 0
      and im = "{}" and ift = "[]" and ifi = "Some ex_wlan0" and ifat = "[]",
      THEN conjunct1, rule_format, OF h]
  note B = decoding_within_bounds [where ifam = ex_ifam and attrs = ex_p2p_attrs and a = ?l,
      THEN conjunct2, THEN conjunct1, rule_format, OF u]
  note C = decoding_within_bounds [where ifam = ex_ifam and attrs = "[?s]" and a = ?s,
      THEN conjunct2, THEN conjunct2, THEN conjunct1, rule_format, OF us]
  note D1 = decoding_within_bounds [where k = ex_kernel and ifindex = 0 and im = "{}" and ift = "[]"
      and m = ?e and beyond = "ex_beyond 1" and mms = "[]",
      THEN conjunct2, THEN conjunct2, THEN conjunct2, rule_format, OF e, THEN conjunct1]
  note D2 = decoding_within_bounds [where k = ex_kernel and ift = "[ex_lo]" and ifi = None
      and ifat = "[]" and m = ?e and beyond = "ex_beyond 1" and mms = "[]",
      THEN conjunct2, THEN conjunct2, THEN conjunct2, rule_format, OF e, THEN conjunct2]
  note a1 = A [THEN conjunct1]
  note a2 = A [THEN conjunct2, THEN conjunct1]
  have a3: "fst (interfaceTable_loop_mem ex_kernel 0 ?m1 {} []) = Ok [ex_lo, ex_wlan0]"
    using A [THEN conjunct2, THEN conjunct2, THEN conjunct1] it unfolding f1 by simp
  have a4: "addrTable_loop_mem ex_kernel [] (Some ex_wlan0) ?m1 []
       = Ok [\<lparr>IP = [0, 0, 0, 0, 0, 0, 0, 0, 0, 0, 0xff, 0xff, 192, 168, 1, 7],
              Mask = [0xff, 0xff, 0xff, 0]\<rparr>]"
    using A [THEN conjunct2, THEN conjunct2, THEN conjunct2] at unfolding f1 by simp
  have b: "newAddr ex_ifam ex_p2p_attrs =
       Ok (Some \<lparr>IP = [0, 0, 0, 0, 0, 0, 0, 0, 0, 0, 0xff, 0xff, 10, 0, 0, 6],
                 Mask = [0xff, 0xff, 0xff, 0]\<rparr>)"
    using B unfolding m v .
  from c f2 a1 a3 a2 a4 b C D1 D2 show ?thesis by (intro conjI)
qed

text \<open>
  The claim as stated fails: nothing requires the payload to be long enough. On a
  new-address message with the four-byte payload \<open>2, 24, 0, 0\<close>, \<open>ifam.Index\<close> is read from
  the four bytes behind the payload: \<open>interfaceTable\<close> returns the record of \<open>lo\<close> when
  they are \<open>1, 0, 0, 0\<close> and that of \<open>wlan0\<close> when they are \<open>2, 0, 0, 0\<close>, and
  \<open>addrTable\<close> for \<open>lo\<close> selects the message in the first case (and panics in
  \<open>m.Data[SizeofIfAddrmsg:]\<close>) and passes over it in the second.
\<close>

theorem header_read_past_payload_counterexample:
  "length (Data (ex_msg RTM_NEWADDR [2, 24, 0, 0])) = 4
   \<and> ifa_Index (IfAddrmsg_cast [2, 24, 0, 0] (ex_beyond 1)) = 1
   \<and> ifa_Index (IfAddrmsg_cast [2, 24, 0, 0] (ex_beyond 2)) = 2
   \<and> fst (interfaceTable_loop_mem ex_kernel 0 [(ex_msg RTM_NEWADDR [2, 24, 0, 0], ex_beyond 1)] {} [])
       = Ok [ex_lo]
   \<and> fst (interfaceTable_loop_mem ex_kernel 0 [(ex_msg RTM_NEWADDR [2, 24, 0, 0], ex_beyond 2)] {} [])
       = Ok [ex_wlan0]
   \<and> addrTable_loop_mem ex_kernel [] (Some ex_lo) [(ex_msg RTM_NEWADDR [2, 24, 0, 0], ex_beyond 1)] []
       = Fault PanicSliceBoundsOutOfRange
   \<and> addrTable_loop_mem ex_kernel [] (Some ex_lo) [(ex_msg RTM_NEWADDR [2, 24, 0, 0], ex_beyond 2)] []
       = Ok []"
  by (simp add: ex_defs const_defs query_defs flag_defs IfAddrmsg_cast_def read_at_def)

end
